theory Spec2Isabelle
  imports Main "HOL-Library.Char_ord" "HOL-Library.List_Lexorder"
begin

section \<open>The Go library functions the services call\<close>

text \<open>
  The four services (package kubernetes: node pools; package containerregistry:
  credentials; package lbaas: network health checks; package compute: snapshots) are
  glue over \<^verbatim>\<open>fmt.Sprintf\<close>, \<^verbatim>\<open>strconv.Itoa\<close>, \<^verbatim>\<open>strings.Join\<close>,
  \<^verbatim>\<open>net/url\<close> and \<^verbatim>\<open>encoding/json\<close>. Go strings are byte sequences, here
  \<^typ>\<open>string\<close>; a Go \<^verbatim>\<open>int\<close> is an \<^typ>\<open>int\<close> (no arithmetic is done on
  one, so its width never matters); a pointer \<^verbatim>\<open>*T\<close> is a \<^typ>\<open>'a option\<close> with
  \<^const>\<open>None\<close> for \<^verbatim>\<open>nil\<close>; a slice \<^verbatim>\<open>[]T\<close> is a \<^typ>\<open>'a list option\<close>, so
  that the nil slice and the empty slice stay apart.
\<close>

type_synonym 'a slice = "'a list option"

definition len :: "'a slice \<Rightarrow> nat" where
  "len s = (case s of None \<Rightarrow> 0 | Some xs \<Rightarrow> length xs)"

definition elems :: "'a slice \<Rightarrow> 'a list" where
  "elems s = (case s of None \<Rightarrow> [] | Some xs \<Rightarrow> xs)"

subsection \<open>strings.Join, strconv.Itoa, fmt.Sprintf\<close>

fun Join :: "string list \<Rightarrow> string \<Rightarrow> string" where
  "Join [] sep = []"
| "Join [x] sep = x"
| "Join (x # y # ys) sep = x @ sep @ Join (y # ys) sep"

definition digit_char :: "nat \<Rightarrow> char" where
  "digit_char d = ''0123456789'' ! d"

fun nat_digits :: "nat \<Rightarrow> string" where
  "nat_digits n = (if n < 10 then [digit_char n] else nat_digits (n div 10) @ [digit_char (n mod 10)])"

declare nat_digits.simps [simp del]

definition Itoa :: "int \<Rightarrow> string" where
  "Itoa i = (if i < 0 then CHR ''-'' # nat_digits (nat (- i)) else nat_digits (nat i))"

text \<open>
  \<^verbatim>\<open>fmt.Sprintf\<close> for the formats of this repository: the only verb is \<^verbatim>\<open>%s\<close> and
  every operand is a string. A verb without an operand prints \<^verbatim>\<open>%!s(MISSING)\<close>, and
  operands left over are reported after the text, as Go does.
\<close>

fun Sprintf :: "string \<Rightarrow> string list \<Rightarrow> string" where
  "Sprintf [] [] = []"
| "Sprintf [] (a # as) =
     ''%!(EXTRA '' @ Join (map (\<lambda>x. ''string='' @ x) (a # as)) '', '' @ '')''"
| "Sprintf [c] args = c # Sprintf [] args"
| "Sprintf (c # d # fmt) args =
     (if c = CHR ''%'' \<and> d = CHR ''s''
      then (case args of
              [] \<Rightarrow> ''%!s(MISSING)'' @ Sprintf fmt []
            | a # as \<Rightarrow> a @ Sprintf fmt as)
      else c # Sprintf (d # fmt) args)"

subsection \<open>net/url: Values, QueryEscape, Encode, ParseQuery\<close>

text \<open>
  \<^verbatim>\<open>url.Values\<close> is a \<^verbatim>\<open>map[string][]string\<close>. It is kept as an association
  list with one entry for each key; \<^verbatim>\<open>Encode\<close> sorts the keys, so the order of the
  entries is never observed.
\<close>

type_synonym Values = "(string \<times> string list) list"

definition Values_Get :: "Values \<Rightarrow> string \<Rightarrow> string list" where
  "Values_Get v k = (case map_of v k of None \<Rightarrow> [] | Some vs \<Rightarrow> vs)"

fun Add :: "string \<Rightarrow> string \<Rightarrow> Values \<Rightarrow> Values" where
  "Add key val [] = [(key, [val])]"
| "Add key val ((k, vs) # v) =
     (if k = key then (k, vs @ [val]) # v else (k, vs) # Add key val v)"

definition upperhex :: string where
  "upperhex = ''0123456789ABCDEF''"

definition shouldEscape :: "char \<Rightarrow> bool" where
  "shouldEscape c =
     (\<not> ((CHR ''a'' \<le> c \<and> c \<le> CHR ''z'') \<or> (CHR ''A'' \<le> c \<and> c \<le> CHR ''Z'')
          \<or> (CHR ''0'' \<le> c \<and> c \<le> CHR ''9'')
          \<or> c = CHR ''-'' \<or> c = CHR ''_'' \<or> c = CHR ''.'' \<or> c = CHR ''~''))"

definition escape_byte :: "char \<Rightarrow> string" where
  "escape_byte c =
     (if c = CHR '' '' then ''+''
      else if shouldEscape c
      then [CHR ''%'', upperhex ! (of_char c div 16), upperhex ! (of_char c mod 16)]
      else [c])"

definition QueryEscape :: "string \<Rightarrow> string" where
  "QueryEscape s = concat (map escape_byte s)"

definition Encode :: "Values \<Rightarrow> string" where
  "Encode v =
     Join (concat (map (\<lambda>k. map (\<lambda>val. QueryEscape k @ ''='' @ QueryEscape val) (Values_Get v k))
                       (sort (map fst v)))) ''&''"

definition ishex :: "char \<Rightarrow> bool" where
  "ishex c = ((CHR ''0'' \<le> c \<and> c \<le> CHR ''9'') \<or> (CHR ''a'' \<le> c \<and> c \<le> CHR ''f'')
              \<or> (CHR ''A'' \<le> c \<and> c \<le> CHR ''F''))"

definition unhex :: "char \<Rightarrow> nat" where
  "unhex c =
     (if CHR ''0'' \<le> c \<and> c \<le> CHR ''9'' then of_char c - of_char CHR ''0''
      else if CHR ''a'' \<le> c \<and> c \<le> CHR ''f'' then of_char c - of_char CHR ''a'' + 10
      else if CHR ''A'' \<le> c \<and> c \<le> CHR ''F'' then of_char c - of_char CHR ''A'' + 10
      else 0)"

text \<open>\<^verbatim>\<open>QueryUnescape\<close>: \<^const>\<open>None\<close> is the \<^verbatim>\<open>EscapeError\<close>.\<close>

fun QueryUnescape :: "string \<Rightarrow> string option" where
  "QueryUnescape [] = Some []"
| "QueryUnescape (c # s) =
     (if c = CHR ''%''
      then (case s of
              h # l # rest \<Rightarrow>
                (if ishex h \<and> ishex l
                 then map_option ((#) (char_of (unhex h * 16 + unhex l))) (QueryUnescape rest)
                 else None)
            | _ \<Rightarrow> None)
      else map_option ((#) (if c = CHR ''+'' then CHR '' '' else c)) (QueryUnescape s))"

text \<open>\<^verbatim>\<open>strings.Cut\<close>: the text before and after the first separator byte.\<close>

fun Cut :: "string \<Rightarrow> char \<Rightarrow> string \<times> string" where
  "Cut [] sep = ([], [])"
| "Cut (c # s) sep =
     (if c = sep then ([], s) else (case Cut s sep of (before, after) \<Rightarrow> (c # before, after)))"

fun split_amp :: "string \<Rightarrow> string list" where
  "split_amp [] = [[]]"
| "split_amp (c # s) =
     (if c = CHR ''&'' then [] # split_amp s
      else (case split_amp s of [] \<Rightarrow> [[c]] | p # ps \<Rightarrow> (c # p) # ps))"

text \<open>
  \<^verbatim>\<open>URL.Query()\<close> is \<^verbatim>\<open>ParseQuery(RawQuery)\<close> with the error dropped: a pair that
  holds a semicolon, is empty or does not unescape is skipped.
\<close>

definition parse_pair :: "string \<Rightarrow> Values \<Rightarrow> Values" where
  "parse_pair p v =
     (if CHR '';'' \<in> set p \<or> p = [] then v
      else (case QueryUnescape (fst (Cut p CHR ''='')) of
              None \<Rightarrow> v
            | Some key \<Rightarrow>
                (case QueryUnescape (snd (Cut p CHR ''='')) of
                   None \<Rightarrow> v
                 | Some val \<Rightarrow> Add key val v)))"

definition ParseQuery :: "string \<Rightarrow> Values" where
  "ParseQuery query = foldl (\<lambda>v p. parse_pair p v) [] (split_amp query)"

subsection \<open>encoding/json: what a struct's field tags put on the wire\<close>

datatype json =
  JNull | JNumber int | JString string | JArray "json list" | JObject "(string \<times> json) list"

text \<open>
  A Go value as \<^verbatim>\<open>json.Marshal\<close> sees it by reflection. A struct is the list of its
  fields in declaration order, each with its Go name and the text of its \<^verbatim>\<open>json\<close>
  tag. \<open>GEncoded\<close> is a value of a type declared outside the files at hand, given by
  its encoding.
\<close>

datatype gvalue =
  GString string
| GInt int
| GPtr "gvalue option"
| GSlice "gvalue list option"
| GStruct "gfield list"
| GEncoded json
and gfield = StructField string string gvalue

definition isEmptyValue :: "gvalue \<Rightarrow> bool" where
  "isEmptyValue v =
     (case v of
        GString s \<Rightarrow> s = []
      | GInt i \<Rightarrow> i = 0
      | GPtr p \<Rightarrow> p = None
      | GSlice xs \<Rightarrow> len xs = 0
      | GStruct fs \<Rightarrow> False
      | GEncoded j \<Rightarrow> False)"

fun split_comma :: "string \<Rightarrow> string list" where
  "split_comma [] = [[]]"
| "split_comma (c # s) =
     (if c = CHR '','' then [] # split_comma s
      else (case split_comma s of [] \<Rightarrow> [[c]] | p # ps \<Rightarrow> (c # p) # ps))"

text \<open>
  The tag \<^verbatim>\<open>-\<close> drops the field. Otherwise the text before the first comma is the
  key (the Go name when it is empty) and \<^verbatim>\<open>omitempty\<close> among the options drops a
  field whose value is empty. A nil pointer or nil slice that is kept is \<^verbatim>\<open>null\<close>.
  (Every key among the tags of these services is a valid one, so the check that
  falls back to the Go name for an invalid key is left out.)
\<close>

fun Marshal :: "gvalue \<Rightarrow> json"
  and Marshal_fields :: "gfield list \<Rightarrow> (string \<times> json) list"
  and Marshal_elems :: "gvalue list \<Rightarrow> json list" where
  "Marshal (GString s) = JString s"
| "Marshal (GInt i) = JNumber i"
| "Marshal (GPtr None) = JNull"
| "Marshal (GPtr (Some v)) = Marshal v"
| "Marshal (GSlice None) = JNull"
| "Marshal (GSlice (Some vs)) = JArray (Marshal_elems vs)"
| "Marshal (GStruct fs) = JObject (Marshal_fields fs)"
| "Marshal (GEncoded j) = j"
| "Marshal_fields [] = []"
| "Marshal_fields (StructField name tag v # fs) =
     (if tag = ''-'' then Marshal_fields fs
      else if ''omitempty'' \<in> set (split_comma (snd (Cut tag CHR '',''))) \<and> isEmptyValue v
      then Marshal_fields fs
      else ((if fst (Cut tag CHR '','') = [] then name else fst (Cut tag CHR '','')), Marshal v)
             # Marshal_fields fs)"
| "Marshal_elems [] = []"
| "Marshal_elems (v # vs) = Marshal v # Marshal_elems vs"

definition object_keys :: "json \<Rightarrow> string list" where
  "object_keys j = (case j of JObject kvs \<Rightarrow> map fst kvs | _ \<Rightarrow> [])"

text \<open>
  The keys a struct can put on the wire, whatever its values are: the names of the
  fields whose tag is not \<^verbatim>\<open>-\<close>.
\<close>

fun wire_names :: "gfield list \<Rightarrow> string list" where
  "wire_names [] = []"
| "wire_names (StructField name tag v # fs) =
     (if tag = ''-'' then wire_names fs
      else (if fst (Cut tag CHR '','') = [] then name else fst (Cut tag CHR '','')) # wire_names fs)"

section \<open>What the services share\<close>

text \<open>
  \<^verbatim>\<open>utils.CannotBeEmpty\<close> is a constant of the package \<^verbatim>\<open>internal/utils\<close> and
  \<^verbatim>\<open>client.ValidationError\<close> a struct of the package \<^verbatim>\<open>client\<close>; the services
  only build the one from the other, so the message is kept symbolic. \<open>Error\<close> is
  any other Go \<^verbatim>\<open>error\<close> value, as the shared helpers hand it back.
\<close>

datatype message = CannotBeEmpty

datatype error = ValidationError (Field: string) (Message: message) | Error string

definition MethodGet :: string where "MethodGet = ''GET''"
definition MethodPost :: string where "MethodPost = ''POST''"
definition MethodPut :: string where "MethodPut = ''PUT''"
definition MethodPatch :: string where "MethodPatch = ''PATCH''"
definition MethodDelete :: string where "MethodDelete = ''DELETE''"

text \<open>
  The part of a \<^verbatim>\<open>*http.Request\<close> the services touch: its URL, whose
  \<^verbatim>\<open>RawQuery\<close> they read and overwrite.
\<close>

record URL =
  Path :: string
  RawQuery :: string

record Request =
  Method :: string
  URL :: URL

definition Query :: "URL \<Rightarrow> Values" where
  "Query u = ParseQuery (RawQuery u)"

text \<open>
  \<^verbatim>\<open>URL.String()\<close> for a URL that has a path and a query only.
\<close>

definition URL_String :: "URL \<Rightarrow> string" where
  "URL_String u = Path u @ (if RawQuery u = [] then [] else CHR ''?'' # RawQuery u)"

text \<open>
  The shared client and the helpers of \<^verbatim>\<open>internal/http\<close> are collaborators from
  outside the four files: each service receives them as functions. What a service
  asks of them is recorded, call by call, in the order of the calls; the answer is
  the Go pair of a result (nil or not) and an error (nil or not). The context
  argument is handed through untouched and left out.
\<close>

datatype 'b call =
  ExecuteSimpleRequestWithRespBody string string "'b option" "Values option"
| ExecuteSimpleRequest string string "'b option" "Values option"
| NewRequest string string "'b option"
| Do "Request option"

text \<open>
  A method either returns or stops at a nil pointer: it reads a field of the
  response, or of the request, when the collaborator gave back neither a value nor
  an error.
\<close>

datatype 'r outcome = Return 'r | NilDereference

text \<open>
  \<^verbatim>\<open>ListOptions\<close> as \<^verbatim>\<open>nodepool.go\<close> declares it; the snapshot service reads
  the same four fields of the \<^verbatim>\<open>ListOptions\<close> of its own package.
\<close>

record ListOptions =
  Limit :: "int option"
  Offset :: "int option"
  Sort :: "string option"
  Expand :: "string slice"

section \<open>Package kubernetes: node pools\<close>

definition nodePoolIdField :: string where "nodePoolIdField = ''nodePoolID''"
definition clusterIdField :: string where "clusterIdField = ''clusterID''"
definition clusterNodepoolURL :: string where
  "clusterNodepoolURL = ''/v0/clusters/%s/node_pools/%s''"

record Taint =
  Key :: string
  Value :: string
  Effect :: string

record AutoScale =
  MinReplicas :: "int option"
  MaxReplicas :: "int option"

text \<open>The fields of \<^verbatim>\<open>CreateNodePoolRequest\<close> carry the prefix \<open>Create_\<close>.\<close>

record CreateNodePoolRequest =
  Create_Name :: string
  Create_Flavor :: string
  Create_Replicas :: int
  Create_Tags :: "string slice option"
  Create_Taints :: "Taint slice option"
  Create_AutoScale :: "AutoScale option"
  Create_MaxPodsPerNode :: "int option"
  Create_AvailabilityZones :: "string slice option"

record PatchNodePoolRequest =
  Replicas :: "int option"
  AutoScale :: "AutoScale option"

definition optional_int :: "int option \<Rightarrow> gvalue" where
  "optional_int p = GPtr (map_option GInt p)"

definition optional_string :: "string option \<Rightarrow> gvalue" where
  "optional_string p = GPtr (map_option GString p)"

definition AutoScale_value :: "AutoScale \<Rightarrow> gvalue" where
  "AutoScale_value a = GStruct
     [StructField ''MinReplicas'' ''min_replicas'' (optional_int (MinReplicas a)),
      StructField ''MaxReplicas'' ''max_replicas'' (optional_int (MaxReplicas a))]"

definition PatchNodePoolRequest_fields :: "PatchNodePoolRequest \<Rightarrow> gfield list" where
  "PatchNodePoolRequest_fields r =
     [StructField ''Replicas'' ''replicas,omitempty'' (optional_int (Replicas r)),
      StructField ''AutoScale'' ''auto_scale,omitempty''
        (GPtr (map_option AutoScale_value (AutoScale r)))]"

definition PatchNodePoolRequest_value :: "PatchNodePoolRequest \<Rightarrow> gvalue" where
  "PatchNodePoolRequest_value r = GStruct (PatchNodePoolRequest_fields r)"

datatype kubernetes_body =
  CreateNodePoolBody CreateNodePoolRequest
| PatchNodePoolBody PatchNodePoolRequest

text \<open>
  \<^verbatim>\<open>NodePool\<close> and \<^verbatim>\<open>Node\<close> are only handed through (and hold types declared in
  other files), so they are type parameters; the two list responses are read.
\<close>

record 'node NodeList =
  NodeList_Results :: "'node slice"

record 'np NodePoolList =
  NodePoolList_Results :: "'np slice"

type_synonym ('b, 'r) execute =
  "string \<Rightarrow> string \<Rightarrow> 'b option \<Rightarrow> Values option \<Rightarrow> 'r option \<times> error option"

text \<open>
  \<^verbatim>\<open>mgc_http.ExecuteSimpleRequestWithRespBody[T]\<close> at the three response types the
  node-pool service uses, and \<^verbatim>\<open>mgc_http.ExecuteSimpleRequest\<close>, each already
  applied to \<^verbatim>\<open>s.client.newRequest\<close> and \<^verbatim>\<open>s.client.GetConfig()\<close>.
\<close>

record ('np, 'node) KubernetesClient =
  execute_NodeList :: "(kubernetes_body, 'node NodeList) execute"
  execute_NodePoolList :: "(kubernetes_body, 'np NodePoolList) execute"
  execute_NodePool :: "(kubernetes_body, 'np) execute"
  execute_simple :: "string \<Rightarrow> string \<Rightarrow> kubernetes_body option \<Rightarrow> Values option \<Rightarrow> error option"

definition nodePoolService_Nodes ::
  "('np, 'node) KubernetesClient \<Rightarrow> string \<Rightarrow> string
     \<Rightarrow> kubernetes_body call list \<times> ('node slice \<times> error option) outcome" where
  "nodePoolService_Nodes s clusterID nodePoolID =
     (if clusterID = [] then
        ([], Return (None, Some (ValidationError clusterIdField CannotBeEmpty)))
      else if nodePoolID = [] then
        ([], Return (None, Some (ValidationError nodePoolIdField CannotBeEmpty)))
      else
        let path = Sprintf (clusterNodepoolURL @ ''/nodes'') [clusterID, nodePoolID] in
        ([ExecuteSimpleRequestWithRespBody MethodGet path None None],
         (case execute_NodeList s MethodGet path None None of
            (resp, Some err) \<Rightarrow> Return (None, Some err)
          | (Some resp, None) \<Rightarrow> Return (NodeList_Results resp, None)
          | (None, None) \<Rightarrow> NilDereference)))"

definition nodePoolService_List ::
  "('np, 'node) KubernetesClient \<Rightarrow> string \<Rightarrow> ListOptions
     \<Rightarrow> kubernetes_body call list \<times> ('np slice \<times> error option) outcome" where
  "nodePoolService_List s clusterID opts =
     (if clusterID = [] then
        ([], Return (None, Some (ValidationError clusterIdField CannotBeEmpty)))
      else
        let query = [];
            query = (case Limit opts of None \<Rightarrow> query | Some l \<Rightarrow> Add ''_limit'' (Itoa l) query);
            query = (case Offset opts of None \<Rightarrow> query | Some off \<Rightarrow> Add ''_offset'' (Itoa off) query);
            query = (case Sort opts of None \<Rightarrow> query | Some srt \<Rightarrow> Add ''_sort'' srt query);
            path = Sprintf ''/v1alpha0/clusters/%s/node-pools'' [clusterID]
        in
        ([ExecuteSimpleRequestWithRespBody MethodGet path None (Some query)],
         (case execute_NodePoolList s MethodGet path None (Some query) of
            (resp, Some err) \<Rightarrow> Return (None, Some err)
          | (Some resp, None) \<Rightarrow> Return (NodePoolList_Results resp, None)
          | (None, None) \<Rightarrow> NilDereference)))"

definition nodePoolService_Create ::
  "('np, 'node) KubernetesClient \<Rightarrow> string \<Rightarrow> CreateNodePoolRequest
     \<Rightarrow> kubernetes_body call list \<times> ('np option \<times> error option)" where
  "nodePoolService_Create s clusterID req =
     (if clusterID = [] then
        ([], (None, Some (ValidationError clusterIdField CannotBeEmpty)))
      else
        let path = Sprintf ''/v0/clusters/%s/node_pools'' [clusterID] in
        ([ExecuteSimpleRequestWithRespBody MethodPost path (Some (CreateNodePoolBody req)) None],
         execute_NodePool s MethodPost path (Some (CreateNodePoolBody req)) None))"

definition nodePoolService_Get ::
  "('np, 'node) KubernetesClient \<Rightarrow> string \<Rightarrow> string
     \<Rightarrow> kubernetes_body call list \<times> ('np option \<times> error option)" where
  "nodePoolService_Get s clusterID nodePoolID =
     (if clusterID = [] then
        ([], (None, Some (ValidationError clusterIdField CannotBeEmpty)))
      else if nodePoolID = [] then
        ([], (None, Some (ValidationError nodePoolIdField CannotBeEmpty)))
      else
        let path = Sprintf clusterNodepoolURL [clusterID, nodePoolID] in
        ([ExecuteSimpleRequestWithRespBody MethodGet path None None],
         execute_NodePool s MethodGet path None None))"

definition nodePoolService_Update ::
  "('np, 'node) KubernetesClient \<Rightarrow> string \<Rightarrow> string \<Rightarrow> PatchNodePoolRequest
     \<Rightarrow> kubernetes_body call list \<times> ('np option \<times> error option)" where
  "nodePoolService_Update s clusterID nodePoolID req =
     (if clusterID = [] then
        ([], (None, Some (ValidationError clusterIdField CannotBeEmpty)))
      else if nodePoolID = [] then
        ([], (None, Some (ValidationError nodePoolIdField CannotBeEmpty)))
      else
        let path = Sprintf clusterNodepoolURL [clusterID, nodePoolID] in
        ([ExecuteSimpleRequestWithRespBody MethodPatch path (Some (PatchNodePoolBody req)) None],
         execute_NodePool s MethodPatch path (Some (PatchNodePoolBody req)) None))"

definition nodePoolService_Delete ::
  "('np, 'node) KubernetesClient \<Rightarrow> string \<Rightarrow> string
     \<Rightarrow> kubernetes_body call list \<times> error option" where
  "nodePoolService_Delete s clusterID nodePoolID =
     (if clusterID = [] then
        ([], Some (ValidationError clusterIdField CannotBeEmpty))
      else if nodePoolID = [] then
        ([], Some (ValidationError nodePoolIdField CannotBeEmpty))
      else
        let path = Sprintf clusterNodepoolURL [clusterID, nodePoolID] in
        ([ExecuteSimpleRequest MethodDelete path None None],
         execute_simple s MethodDelete path None None))"

section \<open>Package containerregistry: credentials\<close>

record CredentialsResponse =
  Username :: string
  Password :: string
  Email :: string

text \<open>
  \<^verbatim>\<open>ExecuteSimpleRequestWithRespBody[CredentialsResponse]\<close> applied to the client's
  \<^verbatim>\<open>newRequest\<close> and configuration. Neither method sends a body.
\<close>

record ContainerRegistryClient =
  execute_Credentials :: "(unit, CredentialsResponse) execute"

definition credentialsService_Get ::
  "ContainerRegistryClient \<Rightarrow> unit call list \<times> (CredentialsResponse option \<times> error option)" where
  "credentialsService_Get c =
     (let path = ''/v0/credentials'' in
      ([ExecuteSimpleRequestWithRespBody MethodGet path None None],
       (case execute_Credentials c MethodGet path None None of
          (res, Some err) \<Rightarrow> (None, Some err)
        | (res, None) \<Rightarrow> (res, None))))"

definition credentialsService_ResetPassword ::
  "ContainerRegistryClient \<Rightarrow> unit call list \<times> (CredentialsResponse option \<times> error option)" where
  "credentialsService_ResetPassword c =
     (let path = ''/v0/credentials/password'' in
      ([ExecuteSimpleRequestWithRespBody MethodPost path None None],
       (case execute_Credentials c MethodPost path None None of
          (res, Some err) \<Rightarrow> (None, Some err)
        | (res, None) \<Rightarrow> (res, None))))"

section \<open>Package lbaas: network health checks\<close>

definition health_checks :: string where "health_checks = ''health-checks''"

text \<open>
  \<^verbatim>\<open>HealthCheckProtocol\<close> is declared in another file of the package: it is the
  type parameter \<open>'p\<close>, and its encoding is an argument where a body is marshalled.
  The fields of the request structs carry the prefixes \<open>CreateHC_\<close>, \<open>DeleteHC_\<close>,
  \<open>GetHC_\<close>, \<open>ListHC_\<close> and \<open>UpdateHC_\<close>.
\<close>

record 'p CreateNetworkHealthCheckRequest =
  CreateHC_LoadBalancerID :: string
  CreateHC_Name :: string
  CreateHC_Description :: "string option"
  CreateHC_Protocol :: 'p
  CreateHC_Path :: "string option"
  CreateHC_Port :: int
  CreateHC_HealthyStatusCode :: "int option"
  CreateHC_IntervalSeconds :: "int option"
  CreateHC_TimeoutSeconds :: "int option"
  CreateHC_InitialDelaySeconds :: "int option"
  CreateHC_HealthyThresholdCount :: "int option"
  CreateHC_UnhealthyThresholdCount :: "int option"

record DeleteNetworkHealthCheckRequest =
  DeleteHC_LoadBalancerID :: string
  DeleteHC_HealthCheckID :: string

record GetNetworkHealthCheckRequest =
  GetHC_LoadBalancerID :: string
  GetHC_HealthCheckID :: string

record ListNetworkHealthCheckRequest =
  ListHC_LoadBalancerID :: string
  ListHC_Offset :: "int option"
  ListHC_Limit :: "int option"
  ListHC_Sort :: "string option"

record 'p UpdateNetworkHealthCheckRequest =
  UpdateHC_LoadBalancerID :: string
  UpdateHC_HealthCheckID :: string
  UpdateHC_Protocol :: 'p
  UpdateHC_Path :: "string option"
  UpdateHC_Port :: int
  UpdateHC_HealthyStatusCode :: "int option"
  UpdateHC_IntervalSeconds :: "int option"
  UpdateHC_TimeoutSeconds :: "int option"
  UpdateHC_InitialDelaySeconds :: "int option"
  UpdateHC_HealthyThresholdCount :: "int option"
  UpdateHC_UnhealthyThresholdCount :: "int option"

definition CreateNetworkHealthCheckRequest_fields ::
  "('p \<Rightarrow> json) \<Rightarrow> 'p CreateNetworkHealthCheckRequest \<Rightarrow> gfield list" where
  "CreateNetworkHealthCheckRequest_fields protocol r =
     [StructField ''LoadBalancerID'' ''-'' (GString (CreateHC_LoadBalancerID r)),
      StructField ''Name'' ''name'' (GString (CreateHC_Name r)),
      StructField ''Description'' ''description,omitempty'' (optional_string (CreateHC_Description r)),
      StructField ''Protocol'' ''protocol'' (GEncoded (protocol (CreateHC_Protocol r))),
      StructField ''Path'' ''path,omitempty'' (optional_string (CreateHC_Path r)),
      StructField ''Port'' ''port'' (GInt (CreateHC_Port r)),
      StructField ''HealthyStatusCode'' ''healthy_status_code,omitempty''
        (optional_int (CreateHC_HealthyStatusCode r)),
      StructField ''IntervalSeconds'' ''interval_seconds,omitempty''
        (optional_int (CreateHC_IntervalSeconds r)),
      StructField ''TimeoutSeconds'' ''timeout_seconds,omitempty''
        (optional_int (CreateHC_TimeoutSeconds r)),
      StructField ''InitialDelaySeconds'' ''initial_delay_seconds,omitempty''
        (optional_int (CreateHC_InitialDelaySeconds r)),
      StructField ''HealthyThresholdCount'' ''healthy_threshold_count,omitempty''
        (optional_int (CreateHC_HealthyThresholdCount r)),
      StructField ''UnhealthyThresholdCount'' ''unhealthy_threshold_count,omitempty''
        (optional_int (CreateHC_UnhealthyThresholdCount r))]"

definition CreateNetworkHealthCheckRequest_value ::
  "('p \<Rightarrow> json) \<Rightarrow> 'p CreateNetworkHealthCheckRequest \<Rightarrow> gvalue" where
  "CreateNetworkHealthCheckRequest_value protocol r = GStruct (CreateNetworkHealthCheckRequest_fields protocol r)"

definition UpdateNetworkHealthCheckRequest_fields ::
  "('p \<Rightarrow> json) \<Rightarrow> 'p UpdateNetworkHealthCheckRequest \<Rightarrow> gfield list" where
  "UpdateNetworkHealthCheckRequest_fields protocol r =
     [StructField ''LoadBalancerID'' ''-'' (GString (UpdateHC_LoadBalancerID r)),
      StructField ''HealthCheckID'' ''-'' (GString (UpdateHC_HealthCheckID r)),
      StructField ''Protocol'' ''protocol'' (GEncoded (protocol (UpdateHC_Protocol r))),
      StructField ''Path'' ''path,omitempty'' (optional_string (UpdateHC_Path r)),
      StructField ''Port'' ''port'' (GInt (UpdateHC_Port r)),
      StructField ''HealthyStatusCode'' ''healthy_status_code,omitempty''
        (optional_int (UpdateHC_HealthyStatusCode r)),
      StructField ''IntervalSeconds'' ''interval_seconds,omitempty''
        (optional_int (UpdateHC_IntervalSeconds r)),
      StructField ''TimeoutSeconds'' ''timeout_seconds,omitempty''
        (optional_int (UpdateHC_TimeoutSeconds r)),
      StructField ''InitialDelaySeconds'' ''initial_delay_seconds,omitempty''
        (optional_int (UpdateHC_InitialDelaySeconds r)),
      StructField ''HealthyThresholdCount'' ''healthy_threshold_count,omitempty''
        (optional_int (UpdateHC_HealthyThresholdCount r)),
      StructField ''UnhealthyThresholdCount'' ''unhealthy_threshold_count,omitempty''
        (optional_int (UpdateHC_UnhealthyThresholdCount r))]"

definition UpdateNetworkHealthCheckRequest_value ::
  "('p \<Rightarrow> json) \<Rightarrow> 'p UpdateNetworkHealthCheckRequest \<Rightarrow> gvalue" where
  "UpdateNetworkHealthCheckRequest_value protocol r = GStruct (UpdateNetworkHealthCheckRequest_fields protocol r)"

datatype 'p lbaas_body =
  CreateHealthCheckBody "'p CreateNetworkHealthCheckRequest"
| UpdateHealthCheckBody "'p UpdateNetworkHealthCheckRequest"

text \<open>
  \<^verbatim>\<open>NetworkHealthCheckResponse\<close> is only handed through: the type parameter \<open>'hc\<close>.
\<close>

record 'hc NetworkPaginatedHealthCheckResponse =
  Meta :: json
  Results :: "'hc slice"

text \<open>
  The client's \<^verbatim>\<open>newRequest\<close> and \<^verbatim>\<open>mgc_http.Do[T]\<close> (applied to the client's
  configuration) at the three types the service uses.
\<close>

record ('p, 'hc) LbaasClient =
  lbaas_newRequest :: "string \<Rightarrow> string \<Rightarrow> 'p lbaas_body option \<Rightarrow> Request option \<times> error option"
  lbaas_Do_Response :: "Request option \<Rightarrow> 'hc option \<times> error option"
  lbaas_Do_Paginated ::
    "Request option \<Rightarrow> 'hc NetworkPaginatedHealthCheckResponse option \<times> error option"
  lbaas_Do_any :: "Request option \<Rightarrow> json option \<times> error option"

text \<open>
  Modelled from the spec: the query helper of the package \<^verbatim>\<open>helpers\<close>
  (\<^verbatim>\<open>NewQueryParams\<close>, \<^verbatim>\<open>AddReflect\<close>, \<^verbatim>\<open>Add\<close>, \<^verbatim>\<open>Encode\<close>), which is not
  among the files at hand. The spec has the health-check list parameters "added only
  when the caller supplies a non-nil value (absent parameters are omitted entirely,
  not sent as empty strings)", with "integers as decimal strings". The helper starts
  from the query the request already has, as the snapshot service does by hand.
\<close>

definition NewQueryParams :: "Request \<Rightarrow> Values" where
  "NewQueryParams httpReq = Query (URL httpReq)"

definition AddReflect :: "string \<Rightarrow> int option \<Rightarrow> Values \<Rightarrow> Values" where
  "AddReflect name v query = (case v of None \<Rightarrow> query | Some i \<Rightarrow> Add name (Itoa i) query)"

definition QueryParams_Add :: "string \<Rightarrow> string option \<Rightarrow> Values \<Rightarrow> Values" where
  "QueryParams_Add name v query = (case v of None \<Rightarrow> query | Some x \<Rightarrow> Add name x query)"

definition QueryParams_Encode :: "Values \<Rightarrow> string" where
  "QueryParams_Encode query = Encode query"

text \<open>
  \<^verbatim>\<open>urlNetworkLoadBalancer\<close> lives in another file of the package: every method
  takes it as its first argument. It receives the address of the load balancer
  identifier (never nil) and the further path segments.
\<close>

type_synonym url_builder = "string option \<Rightarrow> string list \<Rightarrow> string"

definition networkHealthCheckService_Create ::
  "url_builder \<Rightarrow> ('p, 'hc) LbaasClient \<Rightarrow> 'p CreateNetworkHealthCheckRequest
     \<Rightarrow> 'p lbaas_body call list \<times> ('hc option \<times> error option)" where
  "networkHealthCheckService_Create urlNetworkLoadBalancer s req =
     (let path = urlNetworkLoadBalancer (Some (CreateHC_LoadBalancerID req)) [health_checks];
          built = NewRequest MethodPost path (Some (CreateHealthCheckBody req))
      in
      (case lbaas_newRequest s MethodPost path (Some (CreateHealthCheckBody req)) of
         (httpReq, Some err) \<Rightarrow> ([built], (None, Some err))
       | (httpReq, None) \<Rightarrow>
           ([built, Do httpReq],
            (case lbaas_Do_Response s httpReq of
               (result, Some err) \<Rightarrow> (None, Some err)
             | (result, None) \<Rightarrow> (result, None)))))"

definition networkHealthCheckService_Delete ::
  "url_builder \<Rightarrow> ('p, 'hc) LbaasClient \<Rightarrow> DeleteNetworkHealthCheckRequest
     \<Rightarrow> 'p lbaas_body call list \<times> error option" where
  "networkHealthCheckService_Delete urlNetworkLoadBalancer s req =
     (let path = urlNetworkLoadBalancer (Some (DeleteHC_LoadBalancerID req))
                   [health_checks, DeleteHC_HealthCheckID req];
          built = NewRequest MethodDelete path None
      in
      (case lbaas_newRequest s MethodDelete path None of
         (httpReq, Some err) \<Rightarrow> ([built], Some err)
       | (httpReq, None) \<Rightarrow> ([built, Do httpReq], snd (lbaas_Do_any s httpReq))))"

definition networkHealthCheckService_Get ::
  "url_builder \<Rightarrow> ('p, 'hc) LbaasClient \<Rightarrow> GetNetworkHealthCheckRequest
     \<Rightarrow> 'p lbaas_body call list \<times> ('hc option \<times> error option)" where
  "networkHealthCheckService_Get urlNetworkLoadBalancer s req =
     (let path = urlNetworkLoadBalancer (Some (GetHC_LoadBalancerID req))
                   [health_checks, GetHC_HealthCheckID req];
          built = NewRequest MethodGet path None
      in
      (case lbaas_newRequest s MethodGet path None of
         (httpReq, Some err) \<Rightarrow> ([built], (None, Some err))
       | (httpReq, None) \<Rightarrow>
           ([built, Do httpReq],
            (case lbaas_Do_Response s httpReq of
               (result, Some err) \<Rightarrow> (None, Some err)
             | (result, None) \<Rightarrow> (result, None)))))"

definition networkHealthCheckService_List ::
  "url_builder \<Rightarrow> ('p, 'hc) LbaasClient \<Rightarrow> ListNetworkHealthCheckRequest
     \<Rightarrow> 'p lbaas_body call list \<times> ('hc slice \<times> error option) outcome" where
  "networkHealthCheckService_List urlNetworkLoadBalancer s req =
     (let path = urlNetworkLoadBalancer (Some (ListHC_LoadBalancerID req)) [health_checks];
          built = NewRequest MethodGet path None
      in
      (case lbaas_newRequest s MethodGet path None of
         (httpReq, Some err) \<Rightarrow> ([built], Return (None, Some err))
       | (None, None) \<Rightarrow> ([built], NilDereference)
       | (Some httpReq, None) \<Rightarrow>
           let query = NewQueryParams httpReq;
               query = AddReflect ''_offset'' (ListHC_Offset req) query;
               query = AddReflect ''_limit'' (ListHC_Limit req) query;
               query = QueryParams_Add ''_sort'' (ListHC_Sort req) query;
               httpReq = httpReq\<lparr>URL := (URL httpReq)\<lparr>RawQuery := QueryParams_Encode query\<rparr>\<rparr>
           in
           ([built, Do (Some httpReq)],
            (case lbaas_Do_Paginated s (Some httpReq) of
               (result, Some err) \<Rightarrow> Return (None, Some err)
             | (Some result, None) \<Rightarrow> Return (Results result, None)
             | (None, None) \<Rightarrow> NilDereference))))"

definition networkHealthCheckService_Update ::
  "url_builder \<Rightarrow> ('p, 'hc) LbaasClient \<Rightarrow> 'p UpdateNetworkHealthCheckRequest
     \<Rightarrow> 'p lbaas_body call list \<times> error option" where
  "networkHealthCheckService_Update urlNetworkLoadBalancer s req =
     (let path = urlNetworkLoadBalancer (Some (UpdateHC_LoadBalancerID req))
                   [health_checks, UpdateHC_HealthCheckID req];
          built = NewRequest MethodPut path (Some (UpdateHealthCheckBody req))
      in
      (case lbaas_newRequest s MethodPut path (Some (UpdateHealthCheckBody req)) of
         (httpReq, Some err) \<Rightarrow> ([built], Some err)
       | (httpReq, None) \<Rightarrow> ([built, Do httpReq], snd (lbaas_Do_any s httpReq))))"

section \<open>Package compute: snapshots\<close>

definition SnapshotImageExpand :: string where "SnapshotImageExpand = ''image''"
definition SnapshotMachineTypeExpand :: string where "SnapshotMachineTypeExpand = ''machine-type''"

text \<open>
  \<^verbatim>\<open>IDOrName\<close>, \<^verbatim>\<open>CreateParametersNetwork\<close> and \<^verbatim>\<open>UpdateNameRequest\<close> are
  declared in other files of the package: the first two are the type parameters
  \<open>'idn\<close> and \<open>'net\<close>, the third is known by the one field the service sets.
  \<^verbatim>\<open>compute.ListOptions\<close> is declared elsewhere too; the service reads the four
  fields \<^verbatim>\<open>Limit\<close>, \<^verbatim>\<open>Offset\<close>, \<^verbatim>\<open>Sort\<close> and \<^verbatim>\<open>Expand\<close> at the types of
  \<^typ>\<open>ListOptions\<close>. \<^verbatim>\<open>Snapshot\<close> is only handed through: the type parameter
  \<open>'snap\<close>.
\<close>

record 'idn CreateSnapshotRequest =
  CreateSnapshot_Name :: string
  CreateSnapshot_Instance :: 'idn

record ('idn, 'net) RestoreSnapshotRequest =
  Restore_Name :: string
  Restore_MachineType :: 'idn
  Restore_SSHKeyName :: "string option"
  Restore_AvailabilityZone :: "string option"
  Restore_Network :: "'net option"
  Restore_UserData :: "string option"

record CopySnapshotRequest =
  DestinationRegion :: string

datatype ('idn, 'net) compute_body =
  CreateSnapshotBody "'idn CreateSnapshotRequest"
| UpdateNameBody string
| RestoreSnapshotBody "('idn, 'net) RestoreSnapshotRequest"
| CopySnapshotBody CopySnapshotRequest

record 'snap ListSnapshotsResponse =
  Snapshots :: "'snap slice"

text \<open>The anonymous \<^verbatim>\<open>struct { ID string `json:"id"` }\<close> of Create and Restore.\<close>

record IDResult =
  ID :: string

record ('idn, 'net, 'snap) VirtualMachineClient =
  compute_newRequest ::
    "string \<Rightarrow> string \<Rightarrow> ('idn, 'net) compute_body option \<Rightarrow> Request option \<times> error option"
  compute_Do_List :: "Request option \<Rightarrow> 'snap ListSnapshotsResponse option \<times> error option"
  compute_Do_ID :: "Request option \<Rightarrow> IDResult option \<times> error option"
  compute_Do_Snapshot :: "Request option \<Rightarrow> 'snap option \<times> error option"
  compute_Do_any :: "Request option \<Rightarrow> json option \<times> error option"

definition snapshotService_List ::
  "('idn, 'net, 'snap) VirtualMachineClient \<Rightarrow> ListOptions
     \<Rightarrow> ('idn, 'net) compute_body call list \<times> ('snap slice \<times> error option) outcome" where
  "snapshotService_List s opts =
     (let built = NewRequest MethodGet ''/v1/snapshots'' None in
      (case compute_newRequest s MethodGet ''/v1/snapshots'' None of
         (req, Some err) \<Rightarrow> ([built], Return (None, Some err))
       | (None, None) \<Rightarrow> ([built], NilDereference)
       | (Some req, None) \<Rightarrow>
           let q = Query (URL req);
               q = (case Limit opts of None \<Rightarrow> q | Some l \<Rightarrow> Add ''_limit'' (Itoa l) q);
               q = (case Offset opts of None \<Rightarrow> q | Some off \<Rightarrow> Add ''_offset'' (Itoa off) q);
               q = (case Sort opts of None \<Rightarrow> q | Some srt \<Rightarrow> Add ''_sort'' srt q);
               q = (if 0 < len (Expand opts)
                    then Add ''expand'' (Join (elems (Expand opts)) '','') q else q);
               req = req\<lparr>URL := (URL req)\<lparr>RawQuery := Encode q\<rparr>\<rparr>
           in
           ([built, Do (Some req)],
            (case compute_Do_List s (Some req) of
               (resp, Some err) \<Rightarrow> Return (None, Some err)
             | (Some resp, None) \<Rightarrow> Return (Snapshots resp, None)
             | (None, None) \<Rightarrow> NilDereference))))"

definition snapshotService_Create ::
  "('idn, 'net, 'snap) VirtualMachineClient \<Rightarrow> 'idn CreateSnapshotRequest
     \<Rightarrow> ('idn, 'net) compute_body call list \<times> (string \<times> error option) outcome" where
  "snapshotService_Create s createReq =
     (let built = NewRequest MethodPost ''/v1/snapshots'' (Some (CreateSnapshotBody createReq)) in
      (case compute_newRequest s MethodPost ''/v1/snapshots'' (Some (CreateSnapshotBody createReq)) of
         (req, Some err) \<Rightarrow> ([built], Return ([], Some err))
       | (req, None) \<Rightarrow>
           ([built, Do req],
            (case compute_Do_ID s req of
               (resp, Some err) \<Rightarrow> Return ([], Some err)
             | (Some resp, None) \<Rightarrow> Return (ID resp, None)
             | (None, None) \<Rightarrow> NilDereference))))"

definition snapshotService_Get ::
  "('idn, 'net, 'snap) VirtualMachineClient \<Rightarrow> string \<Rightarrow> string slice
     \<Rightarrow> ('idn, 'net) compute_body call list \<times> ('snap option \<times> error option) outcome" where
  "snapshotService_Get s id' expand =
     (let path = Sprintf ''/v1/snapshots/%s'' [id'];
          built = NewRequest MethodGet path None;
          execute = (\<lambda>req.
            ([built, Do req],
             Return (case compute_Do_Snapshot s req of
                       (resp, Some err) \<Rightarrow> (None, Some err)
                     | (resp, None) \<Rightarrow> (resp, None))))
      in
      (case compute_newRequest s MethodGet path None of
         (req, Some err) \<Rightarrow> ([built], Return (None, Some err))
       | (req, None) \<Rightarrow>
           if 0 < len expand then
             (case req of
                None \<Rightarrow> ([built], NilDereference)
              | Some r \<Rightarrow>
                  let q = Query (URL r);
                      q = Add ''expand'' (Join (elems expand) '','') q
                  in execute (Some (r\<lparr>URL := (URL r)\<lparr>RawQuery := Encode q\<rparr>\<rparr>)))
           else execute req))"

definition snapshotService_Delete ::
  "('idn, 'net, 'snap) VirtualMachineClient \<Rightarrow> string
     \<Rightarrow> ('idn, 'net) compute_body call list \<times> error option" where
  "snapshotService_Delete s id' =
     (let path = Sprintf ''/v1/snapshots/%s'' [id'];
          built = NewRequest MethodDelete path None
      in
      (case compute_newRequest s MethodDelete path None of
         (req, Some err) \<Rightarrow> ([built], Some err)
       | (req, None) \<Rightarrow>
           ([built, Do req],
            (case compute_Do_any s req of
               (resp, Some err) \<Rightarrow> Some err
             | (resp, None) \<Rightarrow> None))))"

definition snapshotService_Rename ::
  "('idn, 'net, 'snap) VirtualMachineClient \<Rightarrow> string \<Rightarrow> string
     \<Rightarrow> ('idn, 'net) compute_body call list \<times> error option" where
  "snapshotService_Rename s id' newName =
     (let path = Sprintf ''/v1/snapshots/%s/rename'' [id'];
          built = NewRequest MethodPatch path (Some (UpdateNameBody newName))
      in
      (case compute_newRequest s MethodPatch path (Some (UpdateNameBody newName)) of
         (req, Some err) \<Rightarrow> ([built], Some err)
       | (req, None) \<Rightarrow>
           ([built, Do req],
            (case compute_Do_any s req of
               (resp, Some err) \<Rightarrow> Some err
             | (resp, None) \<Rightarrow> None))))"

definition snapshotService_Restore ::
  "('idn, 'net, 'snap) VirtualMachineClient \<Rightarrow> string \<Rightarrow> ('idn, 'net) RestoreSnapshotRequest
     \<Rightarrow> ('idn, 'net) compute_body call list \<times> (string \<times> error option) outcome" where
  "snapshotService_Restore s id' restoreReq =
     (let path = Sprintf ''/v1/snapshots/%s'' [id'];
          built = NewRequest MethodPost path (Some (RestoreSnapshotBody restoreReq))
      in
      (case compute_newRequest s MethodPost path (Some (RestoreSnapshotBody restoreReq)) of
         (req, Some err) \<Rightarrow> ([built], Return ([], Some err))
       | (req, None) \<Rightarrow>
           ([built, Do req],
            (case compute_Do_ID s req of
               (resp, Some err) \<Rightarrow> Return ([], Some err)
             | (Some resp, None) \<Rightarrow> Return (ID resp, None)
             | (None, None) \<Rightarrow> NilDereference))))"

definition snapshotService_Copy ::
  "('idn, 'net, 'snap) VirtualMachineClient \<Rightarrow> string \<Rightarrow> CopySnapshotRequest
     \<Rightarrow> ('idn, 'net) compute_body call list \<times> error option" where
  "snapshotService_Copy s id' copyReq =
     (let path = Sprintf ''/v1/snapshots/%s/copy'' [id'];
          built = NewRequest MethodPost path (Some (CopySnapshotBody copyReq))
      in
      (case compute_newRequest s MethodPost path (Some (CopySnapshotBody copyReq)) of
         (req, Some err) \<Rightarrow> ([built], Some err)
       | (req, None) \<Rightarrow>
           ([built, Do req],
            (case compute_Do_any s req of
               (resp, Some err) \<Rightarrow> Some err
             | (resp, None) \<Rightarrow> None))))"

section \<open>Observations and worked examples\<close>

text \<open>
  The text of one key and value in an encoded query, and the pairs \<^const>\<open>Encode\<close>
  writes, in its order: keys sorted, the values of a key in the order they were added.
\<close>

definition pair_text :: "string \<times> string \<Rightarrow> string" where
  "pair_text kx = QueryEscape (fst kx) @ ''='' @ QueryEscape (snd kx)"

definition pairs_of :: "Values \<Rightarrow> (string \<times> string) list" where
  "pairs_of v = concat (map (\<lambda>k. map (Pair k) (Values_Get v k)) (sort (map fst v)))"

text \<open>The number a string of decimal digits denotes.\<close>

definition decimal_value :: "string \<Rightarrow> nat" where
  "decimal_value s = foldl (\<lambda>a c. 10 * a + (of_char c - of_char CHR ''0'')) 0 s"

text \<open>The URLs of the requests handed to \<^verbatim>\<open>mgc_http.Do\<close>, in order.\<close>

fun executed_URLs :: "'b call list \<Rightarrow> string list" where
  "executed_URLs [] = []"
| "executed_URLs (Do (Some r) # cs) = URL_String (URL r) # executed_URLs cs"
| "executed_URLs (c # cs) = executed_URLs cs"

text \<open>
  A request constructor for worked examples: it always succeeds and builds the
  request for the verb and the path it is given, with no query string.
\<close>

definition plain_newRequest :: "string \<Rightarrow> string \<Rightarrow> 'b option \<Rightarrow> Request option \<times> error option" where
  "plain_newRequest method path body =
     (Some \<lparr>Method = method, URL = \<lparr>Path = path, RawQuery = []\<rparr>\<rparr>, None)"

definition example_compute_client :: "(unit, unit, unit) VirtualMachineClient" where
  "example_compute_client =
     \<lparr>compute_newRequest = plain_newRequest,
      compute_Do_List = (\<lambda>req. (Some \<lparr>Snapshots = Some []\<rparr>, None)),
      compute_Do_ID = (\<lambda>req. (Some \<lparr>ID = ''id-1''\<rparr>, None)),
      compute_Do_Snapshot = (\<lambda>req. (Some (), None)),
      compute_Do_any = (\<lambda>req. (None, None))\<rparr>"

text \<open>
  A compute backend whose transport fails on every request, and one whose request
  constructor fails.
\<close>

definition failing_compute_client :: "(unit, unit, unit) VirtualMachineClient" where
  "failing_compute_client =
     \<lparr>compute_newRequest = plain_newRequest,
      compute_Do_List = (\<lambda>req. (None, Some (Error ''connection refused''))),
      compute_Do_ID = (\<lambda>req. (None, Some (Error ''connection refused''))),
      compute_Do_Snapshot = (\<lambda>req. (None, Some (Error ''connection refused''))),
      compute_Do_any = (\<lambda>req. (None, Some (Error ''connection refused'')))\<rparr>"

definition unbuildable_compute_client :: "(unit, unit, unit) VirtualMachineClient" where
  "unbuildable_compute_client =
     \<lparr>compute_newRequest = (\<lambda>method path body. (None, Some (Error ''invalid URL''))),
      compute_Do_List = (\<lambda>req. (None, None)),
      compute_Do_ID = (\<lambda>req. (None, None)),
      compute_Do_Snapshot = (\<lambda>req. (None, None)),
      compute_Do_any = (\<lambda>req. (None, None))\<rparr>"

definition example_restore_request :: "(unit, unit) RestoreSnapshotRequest" where
  "example_restore_request =
     \<lparr>Restore_Name = ''restored'', Restore_MachineType = (), Restore_SSHKeyName = None,
      Restore_AvailabilityZone = None, Restore_Network = None, Restore_UserData = None\<rparr>"

text \<open>A node-pool backend that answers every call with an empty success.\<close>

definition example_kubernetes_client :: "(unit, unit) KubernetesClient" where
  "example_kubernetes_client =
     \<lparr>execute_NodeList = (\<lambda>m p b q. (Some \<lparr>NodeList_Results = Some []\<rparr>, None)),
      execute_NodePoolList = (\<lambda>m p b q. (Some \<lparr>NodePoolList_Results = Some []\<rparr>, None)),
      execute_NodePool = (\<lambda>m p b q. (Some (), None)),
      execute_simple = (\<lambda>m p b q. None)\<rparr>"

definition example_node_pool :: CreateNodePoolRequest where
  "example_node_pool =
     \<lparr>Create_Name = ''workers'', Create_Flavor = ''cloud-k8s.gp1.small'', Create_Replicas = 3,
      Create_Tags = None, Create_Taints = None, Create_AutoScale = None,
      Create_MaxPodsPerNode = None, Create_AvailabilityZones = None\<rparr>"

text \<open>A load-balancer backend whose transport fails on every request.\<close>

definition failing_lbaas_client :: "(unit, unit) LbaasClient" where
  "failing_lbaas_client =
     \<lparr>lbaas_newRequest = plain_newRequest,
      lbaas_Do_Response = (\<lambda>req. (None, Some (Error ''connection refused''))),
      lbaas_Do_Paginated = (\<lambda>req. (None, Some (Error ''connection refused''))),
      lbaas_Do_any = (\<lambda>req. (None, Some (Error ''connection refused'')))\<rparr>"

definition example_url_builder :: url_builder where
  "example_url_builder lbID extraPath =
     Join ((''/v1/load-balancers'' # (case lbID of None \<Rightarrow> [] | Some x \<Rightarrow> [x])) @ extraPath) ''/''"

definition example_create_request :: "unit CreateNetworkHealthCheckRequest" where
  "example_create_request =
     \<lparr>CreateHC_LoadBalancerID = ''lb-1'', CreateHC_Name = ''probe'',
      CreateHC_Description = None, CreateHC_Protocol = (), CreateHC_Path = Some ''/healthz'',
      CreateHC_Port = 8080, CreateHC_HealthyStatusCode = Some 200,
      CreateHC_IntervalSeconds = None, CreateHC_TimeoutSeconds = None,
      CreateHC_InitialDelaySeconds = None, CreateHC_HealthyThresholdCount = None,
      CreateHC_UnhealthyThresholdCount = None\<rparr>"

definition example_update_request :: "unit UpdateNetworkHealthCheckRequest" where
  "example_update_request =
     \<lparr>UpdateHC_LoadBalancerID = ''lb-1'', UpdateHC_HealthCheckID = ''hc-1'',
      UpdateHC_Protocol = (), UpdateHC_Path = None, UpdateHC_Port = 8080,
      UpdateHC_HealthyStatusCode = None, UpdateHC_IntervalSeconds = Some 30,
      UpdateHC_TimeoutSeconds = None, UpdateHC_InitialDelaySeconds = None,
      UpdateHC_HealthyThresholdCount = None, UpdateHC_UnhealthyThresholdCount = None\<rparr>"

definition example_registry_client :: ContainerRegistryClient where
  "example_registry_client =
     \<lparr>execute_Credentials = (\<lambda>m p b q. (None, Some (Error ''unauthorized'')))\<rparr>"

section \<open>Auxiliary facts\<close>

lemma Sprintf_clusterNodepoolURL:
  "Sprintf clusterNodepoolURL [c, n] = ''/v0/clusters/'' @ c @ ''/node_pools/'' @ n"
  by (simp add: clusterNodepoolURL_def)

lemma Sprintf_nodes:
  "Sprintf (clusterNodepoolURL @ ''/nodes'') [c, n]
     = ''/v0/clusters/'' @ c @ ''/node_pools/'' @ n @ ''/nodes''"
  by (simp add: clusterNodepoolURL_def)

lemma Values_Get_Add:
  "Values_Get (Add k x v) k' = (if k' = k then Values_Get v k @ [x] else Values_Get v k')"
  by (induction v) (auto simp: Values_Get_def)

lemma map_fst_Add:
  "map fst (Add k x v) = (if k \<in> set (map fst v) then map fst v else map fst v @ [k])"
  by (induction v) (force simp: image_iff)+

lemma keys_Add: "set (map fst (Add k x v)) = insert k (set (map fst v))"
  by (auto simp: map_fst_Add)

lemma keys_Marshal_fields: "set (map fst (Marshal_fields fs)) \<subseteq> set (wire_names fs)"
proof (induction fs)
  case Nil
  show ?case by simp
next
  case (Cons f fs)
  obtain name tag v where f: "f = StructField name tag v" by (cases f)
  from Cons show ?case unfolding f by (auto simp del: Cut.simps)
qed

lemma keys_Marshal_struct: "set (object_keys (Marshal (GStruct fs))) \<subseteq> set (wire_names fs)"
  using keys_Marshal_fields [of fs] by (simp add: object_keys_def)

lemma Marshal_dash: "Marshal (GStruct (StructField name ''-'' v # fs)) = Marshal (GStruct fs)"
  by simp

lemma distinct_keys_Add: "distinct (map fst v) \<Longrightarrow> distinct (map fst (Add k x v))"
  by (simp add: map_fst_Add)

text \<open>Parsing an encoded query gives back the values of every key.\<close>

lemma hex_digit: "d < 16 \<Longrightarrow> ishex (upperhex ! d) \<and> unhex (upperhex ! d) = d
   \<and> upperhex ! d \<notin> {CHR ''&'', CHR ''='', CHR '';''}"
proof -
  assume "d < 16"
  then have "d \<in> {0,1,2,3,4,5,6,7,8,9,10,11,12,13,14,15}" by (simp; arith)
  then show ?thesis
    by (elim insertE emptyE) (simp_all add: upperhex_def ishex_def unhex_def)
qed

lemma shouldEscape_reserved:
  "shouldEscape CHR ''&''" "shouldEscape CHR ''=''" "shouldEscape CHR '';''"
  "shouldEscape CHR ''%''" "shouldEscape CHR ''+''"
  by (simp_all add: shouldEscape_def)

lemma of_char_div16: "(of_char (c::char) :: nat) div 16 < 16"
proof -
  have "(of_char c :: nat) < 256" by (rule nat_of_char_less_256) 
  then show ?thesis using less_mult_imp_div_less [of "of_char c" 16 16] by simp
qed

lemma escape_byte_clean: "set (escape_byte c) \<inter> {CHR ''&'', CHR ''='', CHR '';''} = {}"
  using hex_digit [OF of_char_div16 [of c]] hex_digit [of "of_char c mod 16"] shouldEscape_reserved
  by (auto simp: escape_byte_def)

lemma QueryEscape_clean: "set (QueryEscape s) \<inter> {CHR ''&'', CHR ''='', CHR '';''} = {}"
  using escape_byte_clean by (induction s) (auto simp: QueryEscape_def)

lemma unescape_byte:
  "QueryUnescape (escape_byte c @ rest) = map_option ((#) c) (QueryUnescape rest)"
proof -
  let ?n = "of_char c :: nat"
  have hi: "ishex (upperhex ! (?n div 16))" and hi_val: "unhex (upperhex ! (?n div 16)) = ?n div 16"
    using hex_digit [OF of_char_div16 [of c]] by simp_all
  have lo: "ishex (upperhex ! (?n mod 16))" and lo_val: "unhex (upperhex ! (?n mod 16)) = ?n mod 16"
    using hex_digit [of "?n mod 16"] by simp_all
  have again: "char_of (?n div 16 * 16 + ?n mod 16) = c" by simp
  show ?thesis
    using shouldEscape_reserved hi lo again
    by (auto simp: escape_byte_def hi_val lo_val)
qed

lemma QueryUnescape_QueryEscape: "QueryUnescape (QueryEscape s) = Some s"
  by (induction s) (simp_all add: QueryEscape_def unescape_byte)


lemma Cut_at: "c \<notin> set a \<Longrightarrow> Cut (a @ c # b) c = (a, b)"
  by (induction a) auto

lemma split_amp_single: "CHR ''&'' \<notin> set p \<Longrightarrow> split_amp p = [p]"
  by (induction p) (auto split: list.splits)

lemma split_amp_cons:
  "CHR ''&'' \<notin> set p \<Longrightarrow> split_amp (p @ CHR ''&'' # rest) = p # split_amp rest"
  by (induction p) (auto split: list.splits)

lemma split_amp_Join:
  "ps \<noteq> [] \<Longrightarrow> \<forall>p \<in> set ps. CHR ''&'' \<notin> set p \<Longrightarrow> split_amp (Join ps ''&'') = ps"
  by (induction ps "''&''" rule: Join.induct) (simp_all add: split_amp_single split_amp_cons)

lemma parse_pair_text: "parse_pair (pair_text kx) v = Add (fst kx) (snd kx) v"
proof -
  obtain k x where kx: "kx = (k, x)" by (cases kx)
  have a: "CHR ''='' \<notin> set (QueryEscape k)" using QueryEscape_clean [of k] by auto
  have b: "CHR '';'' \<notin> set (QueryEscape k)" "CHR '';'' \<notin> set (QueryEscape x)"
    using QueryEscape_clean [of k] QueryEscape_clean [of x] by auto
  have c: "Cut (QueryEscape k @ CHR ''='' # QueryEscape x) CHR ''='' = (QueryEscape k, QueryEscape x)"
    using a by (rule Cut_at)
  show ?thesis
    using b by (simp add: kx parse_pair_def pair_text_def c QueryUnescape_QueryEscape del: Cut.simps)
qed

lemma pair_text_clean: "CHR ''&'' \<notin> set (pair_text kx)"
  using QueryEscape_clean [of "fst kx"] QueryEscape_clean [of "snd kx"]
  by (auto simp: pair_text_def)

lemma Encode_pairs: "Encode v = Join (map pair_text (pairs_of v)) ''&''"
  by (simp add: Encode_def pairs_of_def pair_text_def map_concat comp_def)

lemma foldl_parse_pairs:
  "foldl (\<lambda>v p. parse_pair p v) acc (map pair_text kxs) = foldl (\<lambda>v kx. Add (fst kx) (snd kx) v) acc kxs"
  by (induction kxs arbitrary: acc) (simp_all add: parse_pair_text)

lemma parse_pair_empty: "parse_pair [] v = v"
  by (simp add: parse_pair_def)

lemma ParseQuery_Encode:
  "ParseQuery (Encode v) = foldl (\<lambda>acc kx. Add (fst kx) (snd kx) acc) [] (pairs_of v)"
proof (cases "pairs_of v = []")
  case True
  then show ?thesis by (simp add: Encode_pairs ParseQuery_def parse_pair_empty)
next
  case False
  then have "split_amp (Join (map pair_text (pairs_of v)) ''&'') = map pair_text (pairs_of v)"
    by (intro split_amp_Join) (auto simp: pair_text_clean)
  then show ?thesis by (simp add: Encode_pairs ParseQuery_def foldl_parse_pairs)
qed

lemma Values_Get_foldl_Add:
  "Values_Get (foldl (\<lambda>acc kx. Add (fst kx) (snd kx) acc) acc kxs) k
     = Values_Get acc k @ map snd (filter (\<lambda>kx. fst kx = k) kxs)"
  by (induction kxs arbitrary: acc) (auto simp: Values_Get_Add)

lemma Values_Get_Nil: "Values_Get [] k = []"
  by (simp add: Values_Get_def)

lemma Values_Get_absent: "k \<notin> set (map fst v) \<Longrightarrow> Values_Get v k = []"
proof -
  assume "k \<notin> set (map fst v)"
  then have "map_of v k = None" by (simp add: map_of_eq_None_iff)
  then show ?thesis by (simp add: Values_Get_def)
qed

lemma filter_pairs:
  "distinct ks \<Longrightarrow>
   map snd (filter (\<lambda>kx. fst kx = k) (concat (map (\<lambda>k'. map (Pair k') (f k')) ks)))
     = (if k \<in> set ks then f k else [])"
proof (induction ks)
  case Nil
  show ?case by simp
next
  case (Cons a ks)
  have same: "map snd (filter (\<lambda>kx. fst kx = k) (map (Pair a) (f a))) = (if a = k then f a else [])"
    by (induction "f a") (auto simp: filter_map comp_def)
  from Cons show ?case by (auto simp: same)
qed

lemma Query_of_Encode:
  assumes "distinct (map fst v)"
  shows "Values_Get (ParseQuery (Encode v)) k = Values_Get v k"
proof -
  have d: "distinct (sort (map fst v))" using assms by simp
  have "Values_Get (ParseQuery (Encode v)) k
      = map snd (filter (\<lambda>kx. fst kx = k) (pairs_of v))"
    by (simp add: ParseQuery_Encode Values_Get_foldl_Add Values_Get_Nil)
  also have "\<dots> = (if k \<in> set (sort (map fst v)) then Values_Get v k else [])"
    unfolding pairs_of_def by (rule filter_pairs [OF d])
  also have "\<dots> = Values_Get v k"
    using Values_Get_absent [of k v] by auto
  finally show ?thesis .
qed

lemma distinct_foldl_parse: "distinct (map fst acc) \<Longrightarrow> distinct (map fst (foldl (\<lambda>v p. parse_pair p v) acc ps))"
  by (induction ps arbitrary: acc) (auto simp: parse_pair_def distinct_keys_Add split: option.splits)

lemma distinct_ParseQuery: "distinct (map fst (ParseQuery s))"
  by (simp add: ParseQuery_def distinct_foldl_parse)

lemma Values_Get_optional:
  "Values_Get (case v of None \<Rightarrow> q | Some x \<Rightarrow> Add name (f x) q) k
     = Values_Get q k @ (if k = name then (case v of None \<Rightarrow> [] | Some x \<Rightarrow> [f x]) else [])"
  by (simp add: Values_Get_Add split: option.splits)

lemma distinct_optional:
  "distinct (map fst q) \<Longrightarrow> distinct (map fst (case v of None \<Rightarrow> q | Some x \<Rightarrow> Add name (f x) q))"
  by (simp add: distinct_keys_Add split: option.splits)

lemma Query_Encode:
  "distinct (map fst q) \<Longrightarrow> Values_Get (Query (u\<lparr>RawQuery := Encode q\<rparr>)) k = Values_Get q k"
  by (simp add: Query_def Query_of_Encode)

lemma distinct_Query: "distinct (map fst (Query u))"
  by (simp add: Query_def distinct_ParseQuery)

lemma digit_char_value: "d < 10 \<Longrightarrow> of_char (digit_char d) - of_char CHR ''0'' = d"
proof -
  assume "d < 10"
  then have "d \<in> {0, 1, 2, 3, 4, 5, 6, 7, 8, 9}" by (simp; arith)
  then show ?thesis by (elim insertE emptyE) (simp_all add: digit_char_def)
qed

lemma decimal_value_snoc:
  "d < 10 \<Longrightarrow> decimal_value (s @ [digit_char d]) = 10 * decimal_value s + d"
  using digit_char_value [of d] by (simp add: decimal_value_def)

lemma decimal_value_nat_digits: "decimal_value (nat_digits n) = n"
proof (induction n rule: nat_digits.induct)
  case (1 n)
  show ?case
  proof (cases "n < 10")
    case True
    then show ?thesis
      using decimal_value_snoc [of n "[]"]
      by (subst nat_digits.simps) (simp add: decimal_value_def)
  next
    case False
    with 1 have "decimal_value (nat_digits (n div 10)) = n div 10" by simp
    with False show ?thesis
      by (subst nat_digits.simps) (simp add: decimal_value_snoc)
  qed
qed

section \<open>Node pools: validation of the identifiers\<close>

text \<open>
  Claim C4. Get, Update, Delete and Nodes of the node-pool service return a
  validation error naming the empty field when the cluster identifier or the
  node-pool identifier is the empty string, and reach the shared helper exactly when
  both are non-empty. List checks the cluster identifier only. A rejected call
  issues nothing; when both identifiers are empty the error names the cluster
  identifier, which is checked first.
\<close>

theorem nodePool_identifier_validation:
  "(c = [] \<longrightarrow> nodePoolService_Get s c n
       = ([], (None, Some (ValidationError ''clusterID'' CannotBeEmpty))))
   \<and> (c \<noteq> [] \<and> n = [] \<longrightarrow> nodePoolService_Get s c n
       = ([], (None, Some (ValidationError ''nodePoolID'' CannotBeEmpty))))
   \<and> (fst (nodePoolService_Get s c n) \<noteq> [] \<longleftrightarrow> c \<noteq> [] \<and> n \<noteq> [])
   \<and> (c = [] \<longrightarrow> nodePoolService_Update s c n req
       = ([], (None, Some (ValidationError ''clusterID'' CannotBeEmpty))))
   \<and> (c \<noteq> [] \<and> n = [] \<longrightarrow> nodePoolService_Update s c n req
       = ([], (None, Some (ValidationError ''nodePoolID'' CannotBeEmpty))))
   \<and> (fst (nodePoolService_Update s c n req) \<noteq> [] \<longleftrightarrow> c \<noteq> [] \<and> n \<noteq> [])
   \<and> (c = [] \<longrightarrow> nodePoolService_Delete s c n
       = ([], Some (ValidationError ''clusterID'' CannotBeEmpty)))
   \<and> (c \<noteq> [] \<and> n = [] \<longrightarrow> nodePoolService_Delete s c n
       = ([], Some (ValidationError ''nodePoolID'' CannotBeEmpty)))
   \<and> (fst (nodePoolService_Delete s c n) \<noteq> [] \<longleftrightarrow> c \<noteq> [] \<and> n \<noteq> [])
   \<and> (c = [] \<longrightarrow> nodePoolService_Nodes s c n
       = ([], Return (None, Some (ValidationError ''clusterID'' CannotBeEmpty))))
   \<and> (c \<noteq> [] \<and> n = [] \<longrightarrow> nodePoolService_Nodes s c n
       = ([], Return (None, Some (ValidationError ''nodePoolID'' CannotBeEmpty))))
   \<and> (fst (nodePoolService_Nodes s c n) \<noteq> [] \<longleftrightarrow> c \<noteq> [] \<and> n \<noteq> [])
   \<and> (c = [] \<longrightarrow> nodePoolService_List s c opts
       = ([], Return (None, Some (ValidationError ''clusterID'' CannotBeEmpty))))
   \<and> (fst (nodePoolService_List s c opts) \<noteq> [] \<longleftrightarrow> c \<noteq> [])"
  by (simp add: nodePoolService_Get_def nodePoolService_Update_def nodePoolService_Delete_def
      nodePoolService_Nodes_def nodePoolService_List_def Let_def clusterIdField_def
      nodePoolIdField_def)

theorem nodePool_identifier_validation_witness:
  "nodePoolService_Get example_kubernetes_client [] ''np-1''
     = ([], (None, Some (ValidationError ''clusterID'' CannotBeEmpty)))
   \<and> nodePoolService_Delete example_kubernetes_client ''cl-1'' []
     = ([], Some (ValidationError ''nodePoolID'' CannotBeEmpty))
   \<and> fst (nodePoolService_Nodes example_kubernetes_client ''cl-1'' ''np-1'') \<noteq> []
   \<and> fst (nodePoolService_List example_kubernetes_client ''cl-1''
            \<lparr>Limit = None, Offset = None, Sort = None, Expand = None\<rparr>) \<noteq> []"
  using nodePool_identifier_validation [of "[]" example_kubernetes_client "''np-1''"]
        nodePool_identifier_validation [of "''cl-1''" example_kubernetes_client "[]"]
        nodePool_identifier_validation [of "''cl-1''" example_kubernetes_client "''np-1''"]
  by simp

section \<open>Node pools: request paths\<close>

text \<open>
  Claim C5. List of the node-pool service asks for
  \<^verbatim>\<open>/v1alpha0/clusters/{clusterID}/node-pools\<close>, while Get, Create, Update and
  Delete ask for paths under \<^verbatim>\<open>/v0/clusters/{clusterID}/node_pools\<close>. Listing
  the pools of \<^verbatim>\<open>cl-1\<close> with a limit of 10 is a GET of
  \<^verbatim>\<open>/v1alpha0/clusters/cl-1/node-pools\<close> whose query encodes as \<^verbatim>\<open>_limit=10\<close>.
\<close>

theorem nodePool_paths:
  "(c \<noteq> [] \<longrightarrow> (\<exists>query. fst (nodePoolService_List s c opts)
        = [ExecuteSimpleRequestWithRespBody ''GET'' (''/v1alpha0/clusters/'' @ c @ ''/node-pools'')
             None (Some query)]))
   \<and> (c \<noteq> [] \<and> n \<noteq> [] \<longrightarrow> fst (nodePoolService_Get s c n)
        = [ExecuteSimpleRequestWithRespBody ''GET'' (''/v0/clusters/'' @ c @ ''/node_pools/'' @ n)
             None None])
   \<and> (c \<noteq> [] \<longrightarrow> fst (nodePoolService_Create s c creq)
        = [ExecuteSimpleRequestWithRespBody ''POST'' (''/v0/clusters/'' @ c @ ''/node_pools'')
             (Some (CreateNodePoolBody creq)) None])
   \<and> (c \<noteq> [] \<and> n \<noteq> [] \<longrightarrow> fst (nodePoolService_Update s c n preq)
        = [ExecuteSimpleRequestWithRespBody ''PATCH'' (''/v0/clusters/'' @ c @ ''/node_pools/'' @ n)
             (Some (PatchNodePoolBody preq)) None])
   \<and> (c \<noteq> [] \<and> n \<noteq> [] \<longrightarrow> fst (nodePoolService_Delete s c n)
        = [ExecuteSimpleRequest ''DELETE'' (''/v0/clusters/'' @ c @ ''/node_pools/'' @ n)
             None None])
   \<and> fst (nodePoolService_List s ''cl-1''
            \<lparr>Limit = Some 10, Offset = None, Sort = None, Expand = None\<rparr>)
        = [ExecuteSimpleRequestWithRespBody ''GET'' ''/v1alpha0/clusters/cl-1/node-pools''
             None (Some [(''_limit'', [''10''])])]
   \<and> Encode [(''_limit'', [''10''])] = ''_limit=10''"
proof -
  have ten: "Itoa 10 = ''10''" by code_simp
  have enc: "Encode [(''_limit'', [''10''])] = ''_limit=10''" by code_simp
  show ?thesis
    by (simp add: nodePoolService_List_def nodePoolService_Get_def nodePoolService_Create_def
        nodePoolService_Update_def nodePoolService_Delete_def Let_def Sprintf_clusterNodepoolURL
        MethodGet_def MethodPost_def MethodPatch_def MethodDelete_def ten enc)
qed

theorem nodePool_paths_witness:
  "fst (nodePoolService_Get example_kubernetes_client ''cl-1'' ''np-1'')
     = [ExecuteSimpleRequestWithRespBody ''GET'' ''/v0/clusters/cl-1/node_pools/np-1'' None None]
   \<and> fst (nodePoolService_Delete example_kubernetes_client ''cl-1'' ''np-1'')
     = [ExecuteSimpleRequest ''DELETE'' ''/v0/clusters/cl-1/node_pools/np-1'' None None]
   \<and> fst (nodePoolService_List example_kubernetes_client ''cl-1''
            \<lparr>Limit = Some 10, Offset = None, Sort = None, Expand = None\<rparr>)
     = [ExecuteSimpleRequestWithRespBody ''GET'' ''/v1alpha0/clusters/cl-1/node-pools''
          None (Some [(''_limit'', [''10''])])]"
  using nodePool_paths [of "''cl-1''" example_kubernetes_client _ "''np-1''"]
  by simp

section \<open>Health checks: Update and Delete\<close>

text \<open>
  Claim C6. Update of the health-check service builds a PUT request, Delete a DELETE
  request, and both return an error only. Once the request is built, what they
  return is the error of \<^verbatim>\<open>mgc_http.Do\<close>, unchanged: the helper's failure when it
  fails, and nil exactly when it reports success. (When the request cannot be built,
  the helper is not reached and the constructor's error is returned.)
\<close>

theorem healthCheck_update_delete:
  "(\<exists>rest. fst (networkHealthCheckService_Update url s ureq)
     = NewRequest ''PUT'' (url (Some (UpdateHC_LoadBalancerID ureq))
                             [''health-checks'', UpdateHC_HealthCheckID ureq])
         (Some (UpdateHealthCheckBody ureq)) # rest)
   \<and> (\<forall>httpReq. lbaas_newRequest s ''PUT''
          (url (Some (UpdateHC_LoadBalancerID ureq)) [''health-checks'', UpdateHC_HealthCheckID ureq])
          (Some (UpdateHealthCheckBody ureq)) = (httpReq, None)
        \<longrightarrow> networkHealthCheckService_Update url s ureq
          = ([NewRequest ''PUT'' (url (Some (UpdateHC_LoadBalancerID ureq))
                                    [''health-checks'', UpdateHC_HealthCheckID ureq])
                (Some (UpdateHealthCheckBody ureq)), Do httpReq],
             snd (lbaas_Do_any s httpReq)))
   \<and> (snd (networkHealthCheckService_Update url s ureq) = None
        \<longleftrightarrow> (\<exists>httpReq. lbaas_newRequest s ''PUT''
               (url (Some (UpdateHC_LoadBalancerID ureq)) [''health-checks'', UpdateHC_HealthCheckID ureq])
               (Some (UpdateHealthCheckBody ureq)) = (httpReq, None)
             \<and> snd (lbaas_Do_any s httpReq) = None))
   \<and> (\<exists>rest. fst (networkHealthCheckService_Delete url s dreq)
     = NewRequest ''DELETE'' (url (Some (DeleteHC_LoadBalancerID dreq))
                             [''health-checks'', DeleteHC_HealthCheckID dreq]) None # rest)
   \<and> (\<forall>httpReq. lbaas_newRequest s ''DELETE''
          (url (Some (DeleteHC_LoadBalancerID dreq)) [''health-checks'', DeleteHC_HealthCheckID dreq])
          None = (httpReq, None)
        \<longrightarrow> networkHealthCheckService_Delete url s dreq
          = ([NewRequest ''DELETE'' (url (Some (DeleteHC_LoadBalancerID dreq))
                                    [''health-checks'', DeleteHC_HealthCheckID dreq]) None,
              Do httpReq],
             snd (lbaas_Do_any s httpReq)))
   \<and> (snd (networkHealthCheckService_Delete url s dreq) = None
        \<longleftrightarrow> (\<exists>httpReq. lbaas_newRequest s ''DELETE''
               (url (Some (DeleteHC_LoadBalancerID dreq)) [''health-checks'', DeleteHC_HealthCheckID dreq])
               None = (httpReq, None)
             \<and> snd (lbaas_Do_any s httpReq) = None))"
  by (auto simp add: networkHealthCheckService_Update_def networkHealthCheckService_Delete_def
        Let_def MethodPut_def MethodDelete_def health_checks_def
        split: prod.splits option.splits)

theorem healthCheck_update_delete_witness:
  "networkHealthCheckService_Update example_url_builder failing_lbaas_client example_update_request
     = ([NewRequest ''PUT'' ''/v1/load-balancers/lb-1/health-checks/hc-1''
           (Some (UpdateHealthCheckBody example_update_request)),
         Do (Some \<lparr>Method = ''PUT'',
                   URL = \<lparr>Path = ''/v1/load-balancers/lb-1/health-checks/hc-1'', RawQuery = []\<rparr>\<rparr>)],
        Some (Error ''connection refused''))
   \<and> networkHealthCheckService_Delete example_url_builder failing_lbaas_client
        \<lparr>DeleteHC_LoadBalancerID = ''lb-1'', DeleteHC_HealthCheckID = ''hc-1''\<rparr>
     = ([NewRequest ''DELETE'' ''/v1/load-balancers/lb-1/health-checks/hc-1'' None,
         Do (Some \<lparr>Method = ''DELETE'',
                   URL = \<lparr>Path = ''/v1/load-balancers/lb-1/health-checks/hc-1'', RawQuery = []\<rparr>\<rparr>)],
        Some (Error ''connection refused''))"
  using healthCheck_update_delete [of example_url_builder failing_lbaas_client
          example_update_request
          "\<lparr>DeleteHC_LoadBalancerID = ''lb-1'', DeleteHC_HealthCheckID = ''hc-1''\<rparr>"]
  by (simp add: example_url_builder_def failing_lbaas_client_def example_update_request_def
      plain_newRequest_def)

section \<open>Node pools: the body of Update\<close>

text \<open>
  Claim C7. Update of the node-pool service asks for a PATCH whose body is a
  \<^verbatim>\<open>PatchNodePoolRequest\<close>. Marshalled, that body is an object whose only keys
  can be \<^verbatim>\<open>replicas\<close> and \<^verbatim>\<open>auto_scale\<close>, and each of the two is present
  exactly when its pointer is not nil: no other node-pool field is ever sent.
\<close>

theorem nodePool_update_body:
  "(c \<noteq> [] \<and> n \<noteq> [] \<longrightarrow> fst (nodePoolService_Update s c n req)
        = [ExecuteSimpleRequestWithRespBody ''PATCH'' (''/v0/clusters/'' @ c @ ''/node_pools/'' @ n)
             (Some (PatchNodePoolBody req)) None])
   \<and> (c = [] \<or> n = [] \<longrightarrow> fst (nodePoolService_Update s c n req) = [])
   \<and> Marshal (PatchNodePoolRequest_value req) = JObject
        ((case Replicas req of None \<Rightarrow> [] | Some r \<Rightarrow> [(''replicas'', JNumber r)])
         @ (case AutoScale req of None \<Rightarrow> []
            | Some a \<Rightarrow> [(''auto_scale'', Marshal (AutoScale_value a))]))
   \<and> set (object_keys (Marshal (PatchNodePoolRequest_value req))) \<subseteq> {''replicas'', ''auto_scale''}
   \<and> (''replicas'' \<in> set (object_keys (Marshal (PatchNodePoolRequest_value req)))
        \<longleftrightarrow> Replicas req \<noteq> None)
   \<and> (''auto_scale'' \<in> set (object_keys (Marshal (PatchNodePoolRequest_value req)))
        \<longleftrightarrow> AutoScale req \<noteq> None)"
  by (auto simp add: nodePoolService_Update_def Let_def Sprintf_clusterNodepoolURL MethodPatch_def
      PatchNodePoolRequest_value_def PatchNodePoolRequest_fields_def optional_int_def
      isEmptyValue_def object_keys_def
      split: option.splits)

theorem nodePool_update_body_witness:
  "fst (nodePoolService_Update example_kubernetes_client ''cl-1'' ''np-1''
          \<lparr>Replicas = Some 3, AutoScale = None\<rparr>)
     = [ExecuteSimpleRequestWithRespBody ''PATCH'' ''/v0/clusters/cl-1/node_pools/np-1''
          (Some (PatchNodePoolBody \<lparr>Replicas = Some 3, AutoScale = None\<rparr>)) None]
   \<and> Marshal (PatchNodePoolRequest_value \<lparr>Replicas = Some 3, AutoScale = None\<rparr>)
     = JObject [(''replicas'', JNumber 3)]
   \<and> ''replicas'' \<in> set (object_keys
         (Marshal (PatchNodePoolRequest_value \<lparr>Replicas = Some 3, AutoScale = None\<rparr>)))
   \<and> ''auto_scale'' \<notin> set (object_keys
         (Marshal (PatchNodePoolRequest_value \<lparr>Replicas = Some 3, AutoScale = None\<rparr>)))"
  using nodePool_update_body [of "''cl-1''" "''np-1''" example_kubernetes_client
          "\<lparr>Replicas = Some 3, AutoScale = None\<rparr>"]
  by (simp add: object_keys_def)


section \<open>Snapshots: the identifiers Create and Restore return\<close>

text \<open>
  Claim C8. Create posts to \<^verbatim>\<open>/v1/snapshots\<close> and Restore to
  \<^verbatim>\<open>/v1/snapshots/{id}\<close>. When the request is built and \<^verbatim>\<open>mgc_http.Do\<close>
  hands back a decoded response without an error, each returns exactly the
  \<^verbatim>\<open>id\<close> field of that response with a nil error. When the request cannot be
  built, or the helper reports an error, each returns the empty string together
  with that error.
\<close>

theorem snapshot_create_restore_id:
  "(\<forall>req err. compute_newRequest s ''POST'' ''/v1/snapshots'' (Some (CreateSnapshotBody createReq))
        = (req, Some err)
      \<longrightarrow> snapshotService_Create s createReq
        = ([NewRequest ''POST'' ''/v1/snapshots'' (Some (CreateSnapshotBody createReq))],
           Return ([], Some err)))
   \<and> (\<forall>req resp err. compute_newRequest s ''POST'' ''/v1/snapshots'' (Some (CreateSnapshotBody createReq))
        = (req, None) \<and> compute_Do_ID s req = (resp, Some err)
      \<longrightarrow> snapshotService_Create s createReq
        = ([NewRequest ''POST'' ''/v1/snapshots'' (Some (CreateSnapshotBody createReq)), Do req],
           Return ([], Some err)))
   \<and> (\<forall>req resp. compute_newRequest s ''POST'' ''/v1/snapshots'' (Some (CreateSnapshotBody createReq))
        = (req, None) \<and> compute_Do_ID s req = (Some resp, None)
      \<longrightarrow> snapshotService_Create s createReq
        = ([NewRequest ''POST'' ''/v1/snapshots'' (Some (CreateSnapshotBody createReq)), Do req],
           Return (ID resp, None)))
   \<and> (\<forall>req err. compute_newRequest s ''POST'' (''/v1/snapshots/'' @ id')
          (Some (RestoreSnapshotBody restoreReq)) = (req, Some err)
      \<longrightarrow> snapshotService_Restore s id' restoreReq
        = ([NewRequest ''POST'' (''/v1/snapshots/'' @ id') (Some (RestoreSnapshotBody restoreReq))],
           Return ([], Some err)))
   \<and> (\<forall>req resp err. compute_newRequest s ''POST'' (''/v1/snapshots/'' @ id')
          (Some (RestoreSnapshotBody restoreReq)) = (req, None)
        \<and> compute_Do_ID s req = (resp, Some err)
      \<longrightarrow> snapshotService_Restore s id' restoreReq
        = ([NewRequest ''POST'' (''/v1/snapshots/'' @ id') (Some (RestoreSnapshotBody restoreReq)),
            Do req],
           Return ([], Some err)))
   \<and> (\<forall>req resp. compute_newRequest s ''POST'' (''/v1/snapshots/'' @ id')
          (Some (RestoreSnapshotBody restoreReq)) = (req, None)
        \<and> compute_Do_ID s req = (Some resp, None)
      \<longrightarrow> snapshotService_Restore s id' restoreReq
        = ([NewRequest ''POST'' (''/v1/snapshots/'' @ id') (Some (RestoreSnapshotBody restoreReq)),
            Do req],
           Return (ID resp, None)))"
  by (simp add: snapshotService_Create_def snapshotService_Restore_def Let_def MethodPost_def
      split: option.splits)

theorem snapshot_create_restore_id_witness:
  "snapshotService_Create example_compute_client
       \<lparr>CreateSnapshot_Name = ''nightly'', CreateSnapshot_Instance = ()\<rparr>
     = ([NewRequest ''POST'' ''/v1/snapshots''
           (Some (CreateSnapshotBody \<lparr>CreateSnapshot_Name = ''nightly'', CreateSnapshot_Instance = ()\<rparr>)),
         Do (Some \<lparr>Method = ''POST'', URL = \<lparr>Path = ''/v1/snapshots'', RawQuery = []\<rparr>\<rparr>)],
        Return (''id-1'', None))
   \<and> snapshotService_Restore failing_compute_client ''snap-1'' example_restore_request
     = ([NewRequest ''POST'' ''/v1/snapshots/snap-1'' (Some (RestoreSnapshotBody example_restore_request)),
         Do (Some \<lparr>Method = ''POST'', URL = \<lparr>Path = ''/v1/snapshots/snap-1'', RawQuery = []\<rparr>\<rparr>)],
        Return ([], Some (Error ''connection refused'')))
   \<and> snapshotService_Restore unbuildable_compute_client ''snap-1'' example_restore_request
     = ([NewRequest ''POST'' ''/v1/snapshots/snap-1'' (Some (RestoreSnapshotBody example_restore_request))],
        Return ([], Some (Error ''invalid URL'')))"
  using snapshot_create_restore_id [of example_compute_client
          "\<lparr>CreateSnapshot_Name = ''nightly'', CreateSnapshot_Instance = ()\<rparr>"]
        snapshot_create_restore_id [of failing_compute_client _ "''snap-1''" example_restore_request]
        snapshot_create_restore_id [of unbuildable_compute_client _ "''snap-1''" example_restore_request]
  by (simp add: example_compute_client_def failing_compute_client_def
      unbuildable_compute_client_def plain_newRequest_def)

section \<open>Health checks: the routing fields stay out of the body\<close>

text \<open>
  Claim C9. Create and Update of the health-check service hand the whole request
  struct, with \<^verbatim>\<open>LoadBalancerID\<close> (and \<^verbatim>\<open>HealthCheckID\<close>) set, to the request
  constructor, and build the path from those fields. Tagged \<^verbatim>\<open>json:"-"\<close>, the
  two fields never appear in the marshalled body: its keys are among the
  health-check configuration fields, and the body is the same whatever the two
  identifiers are.
\<close>

theorem healthCheck_body_has_no_routing_fields:
  "(\<exists>rest. fst (networkHealthCheckService_Create url s creq)
     = NewRequest ''POST'' (url (Some (CreateHC_LoadBalancerID creq)) [''health-checks''])
         (Some (CreateHealthCheckBody creq)) # rest)
   \<and> (\<exists>rest. fst (networkHealthCheckService_Update url s ureq)
     = NewRequest ''PUT'' (url (Some (UpdateHC_LoadBalancerID ureq))
                             [''health-checks'', UpdateHC_HealthCheckID ureq])
         (Some (UpdateHealthCheckBody ureq)) # rest)
   \<and> set (object_keys (Marshal (CreateNetworkHealthCheckRequest_value protocol creq)))
       \<subseteq> set [''name'', ''description'', ''protocol'', ''path'', ''port'', ''healthy_status_code'',
               ''interval_seconds'', ''timeout_seconds'', ''initial_delay_seconds'',
               ''healthy_threshold_count'', ''unhealthy_threshold_count'']
   \<and> set (object_keys (Marshal (UpdateNetworkHealthCheckRequest_value protocol ureq)))
       \<subseteq> set [''protocol'', ''path'', ''port'', ''healthy_status_code'',
               ''interval_seconds'', ''timeout_seconds'', ''initial_delay_seconds'',
               ''healthy_threshold_count'', ''unhealthy_threshold_count'']
   \<and> Marshal (CreateNetworkHealthCheckRequest_value protocol (creq\<lparr>CreateHC_LoadBalancerID := lb\<rparr>))
       = Marshal (CreateNetworkHealthCheckRequest_value protocol creq)
   \<and> Marshal (UpdateNetworkHealthCheckRequest_value protocol
                (ureq\<lparr>UpdateHC_LoadBalancerID := lb, UpdateHC_HealthCheckID := hc\<rparr>))
       = Marshal (UpdateNetworkHealthCheckRequest_value protocol ureq)"
proof -
  let ?cf = "CreateNetworkHealthCheckRequest_fields protocol"
  let ?uf = "UpdateNetworkHealthCheckRequest_fields protocol"
  have call_create: "\<exists>rest. fst (networkHealthCheckService_Create url s creq)
     = NewRequest ''POST'' (url (Some (CreateHC_LoadBalancerID creq)) [''health-checks''])
         (Some (CreateHealthCheckBody creq)) # rest"
    by (simp add: networkHealthCheckService_Create_def Let_def MethodPost_def health_checks_def
        split: prod.splits option.splits)
  have call_update: "\<exists>rest. fst (networkHealthCheckService_Update url s ureq)
     = NewRequest ''PUT'' (url (Some (UpdateHC_LoadBalancerID ureq))
                             [''health-checks'', UpdateHC_HealthCheckID ureq])
         (Some (UpdateHealthCheckBody ureq)) # rest"
    by (simp add: networkHealthCheckService_Update_def Let_def MethodPut_def health_checks_def
        split: prod.splits option.splits)
  have "wire_names (?cf creq)
      = [''name'', ''description'', ''protocol'', ''path'', ''port'', ''healthy_status_code'',
         ''interval_seconds'', ''timeout_seconds'', ''initial_delay_seconds'',
         ''healthy_threshold_count'', ''unhealthy_threshold_count'']"
    by (simp add: CreateNetworkHealthCheckRequest_fields_def)
  with keys_Marshal_struct [of "?cf creq"]
  have keys_create: "set (object_keys (Marshal (CreateNetworkHealthCheckRequest_value protocol creq)))
       \<subseteq> set [''name'', ''description'', ''protocol'', ''path'', ''port'', ''healthy_status_code'',
               ''interval_seconds'', ''timeout_seconds'', ''initial_delay_seconds'',
               ''healthy_threshold_count'', ''unhealthy_threshold_count'']"
    by (simp only: CreateNetworkHealthCheckRequest_value_def)
  have "wire_names (?uf ureq)
      = [''protocol'', ''path'', ''port'', ''healthy_status_code'',
         ''interval_seconds'', ''timeout_seconds'', ''initial_delay_seconds'',
         ''healthy_threshold_count'', ''unhealthy_threshold_count'']"
    by (simp add: UpdateNetworkHealthCheckRequest_fields_def)
  with keys_Marshal_struct [of "?uf ureq"]
  have keys_update: "set (object_keys (Marshal (UpdateNetworkHealthCheckRequest_value protocol ureq)))
       \<subseteq> set [''protocol'', ''path'', ''port'', ''healthy_status_code'',
               ''interval_seconds'', ''timeout_seconds'', ''initial_delay_seconds'',
               ''healthy_threshold_count'', ''unhealthy_threshold_count'']"
    by (simp only: UpdateNetworkHealthCheckRequest_value_def)
  have c1: "?cf (creq\<lparr>CreateHC_LoadBalancerID := lb\<rparr>)
      = StructField ''LoadBalancerID'' ''-'' (GString lb) # tl (?cf creq)"
    by (simp add: CreateNetworkHealthCheckRequest_fields_def)
  have c2: "?cf creq
      = StructField ''LoadBalancerID'' ''-'' (GString (CreateHC_LoadBalancerID creq)) # tl (?cf creq)"
    by (simp add: CreateNetworkHealthCheckRequest_fields_def)
  have "Marshal (GStruct (?cf creq)) = Marshal (GStruct (tl (?cf creq)))"
    by (subst c2) (rule Marshal_dash)
  then have same_create:
    "Marshal (CreateNetworkHealthCheckRequest_value protocol (creq\<lparr>CreateHC_LoadBalancerID := lb\<rparr>))
       = Marshal (CreateNetworkHealthCheckRequest_value protocol creq)"
    by (simp only: CreateNetworkHealthCheckRequest_value_def c1 Marshal_dash)
  have u1: "?uf (ureq\<lparr>UpdateHC_LoadBalancerID := lb, UpdateHC_HealthCheckID := hc\<rparr>)
      = StructField ''LoadBalancerID'' ''-'' (GString lb)
        # StructField ''HealthCheckID'' ''-'' (GString hc) # tl (tl (?uf ureq))"
    by (simp add: UpdateNetworkHealthCheckRequest_fields_def)
  have u2: "?uf ureq
      = StructField ''LoadBalancerID'' ''-'' (GString (UpdateHC_LoadBalancerID ureq))
        # StructField ''HealthCheckID'' ''-'' (GString (UpdateHC_HealthCheckID ureq))
        # tl (tl (?uf ureq))"
    by (simp add: UpdateNetworkHealthCheckRequest_fields_def)
  have "Marshal (GStruct (?uf ureq)) = Marshal (GStruct (tl (tl (?uf ureq))))"
    by (subst u2) (simp only: Marshal_dash)
  then have same_update:
    "Marshal (UpdateNetworkHealthCheckRequest_value protocol
                (ureq\<lparr>UpdateHC_LoadBalancerID := lb, UpdateHC_HealthCheckID := hc\<rparr>))
       = Marshal (UpdateNetworkHealthCheckRequest_value protocol ureq)"
    by (simp only: UpdateNetworkHealthCheckRequest_value_def u1 Marshal_dash)
  from call_create call_update keys_create keys_update same_create same_update
  show ?thesis by (intro conjI)
qed

theorem healthCheck_body_has_no_routing_fields_witness:
  "Marshal (CreateNetworkHealthCheckRequest_value (\<lambda>p. JString ''tcp'') example_create_request)
     = JObject [(''name'', JString ''probe''), (''protocol'', JString ''tcp''),
                (''path'', JString ''/healthz''), (''port'', JNumber 8080),
                (''healthy_status_code'', JNumber 200)]
   \<and> Marshal (UpdateNetworkHealthCheckRequest_value (\<lambda>p. JString ''tcp'') example_update_request)
     = JObject [(''protocol'', JString ''tcp''), (''port'', JNumber 8080),
                (''interval_seconds'', JNumber 30)]
   \<and> (\<exists>rest. fst (networkHealthCheckService_Create example_url_builder failing_lbaas_client
                 example_create_request)
     = NewRequest ''POST'' ''/v1/load-balancers/lb-1/health-checks''
         (Some (CreateHealthCheckBody example_create_request)) # rest)
   \<and> set (object_keys (Marshal (CreateNetworkHealthCheckRequest_value (\<lambda>p. JString ''tcp'')
                                  example_create_request)))
       \<subseteq> set [''name'', ''description'', ''protocol'', ''path'', ''port'', ''healthy_status_code'',
               ''interval_seconds'', ''timeout_seconds'', ''initial_delay_seconds'',
               ''healthy_threshold_count'', ''unhealthy_threshold_count'']"
proof -
  have a: "Marshal (CreateNetworkHealthCheckRequest_value (\<lambda>p. JString ''tcp'') example_create_request)
     = JObject [(''name'', JString ''probe''), (''protocol'', JString ''tcp''),
                (''path'', JString ''/healthz''), (''port'', JNumber 8080),
                (''healthy_status_code'', JNumber 200)]"
    by (simp add: CreateNetworkHealthCheckRequest_value_def CreateNetworkHealthCheckRequest_fields_def
        example_create_request_def optional_int_def optional_string_def isEmptyValue_def)
  have b: "Marshal (UpdateNetworkHealthCheckRequest_value (\<lambda>p. JString ''tcp'') example_update_request)
     = JObject [(''protocol'', JString ''tcp''), (''port'', JNumber 8080),
                (''interval_seconds'', JNumber 30)]"
    by (simp add: UpdateNetworkHealthCheckRequest_value_def UpdateNetworkHealthCheckRequest_fields_def
        example_update_request_def optional_int_def optional_string_def isEmptyValue_def)
  have c: "example_url_builder (Some (CreateHC_LoadBalancerID example_create_request))
             [''health-checks''] = ''/v1/load-balancers/lb-1/health-checks''"
    by (simp add: example_url_builder_def example_create_request_def)
  from healthCheck_body_has_no_routing_fields
         [of example_url_builder failing_lbaas_client example_create_request _
             "\<lambda>p. JString ''tcp''"]
  show ?thesis
    by (simp only: a b c simp_thms)
qed


section \<open>An error never comes with a result\<close>

text \<open>
  Claim C10. Every method of the four services that returns a result and an error
  returns the zero value of the result (nil pointer, nil slice, empty string)
  whenever the error is not nil; a non-zero result comes with a nil error only.
  Create, Get and Update of the node-pool service hand the helper's pair back as
  it is, so for them this rests on the helper never giving both a response and an
  error; every other method drops the result itself when it sees an error.
\<close>

theorem error_comes_with_zero_result:
  assumes helper:
    "\<forall>m p b q. fst (execute_NodePool ks m p b q) = None \<or> snd (execute_NodePool ks m p b q) = None"
  shows
    "(\<forall>r e. snd (nodePoolService_Nodes ks c n) = Return (r, e) \<longrightarrow> r = None \<or> e = None)
     \<and> (\<forall>r e. snd (nodePoolService_List ks c opts) = Return (r, e) \<longrightarrow> r = None \<or> e = None)
     \<and> (\<forall>r e. snd (nodePoolService_Create ks c creq) = (r, e) \<longrightarrow> r = None \<or> e = None)
     \<and> (\<forall>r e. snd (nodePoolService_Get ks c n) = (r, e) \<longrightarrow> r = None \<or> e = None)
     \<and> (\<forall>r e. snd (nodePoolService_Update ks c n preq) = (r, e) \<longrightarrow> r = None \<or> e = None)
     \<and> (\<forall>r e. snd (credentialsService_Get rc) = (r, e) \<longrightarrow> r = None \<or> e = None)
     \<and> (\<forall>r e. snd (credentialsService_ResetPassword rc) = (r, e) \<longrightarrow> r = None \<or> e = None)
     \<and> (\<forall>r e. snd (networkHealthCheckService_Create url lc hcreq) = (r, e)
           \<longrightarrow> r = None \<or> e = None)
     \<and> (\<forall>r e. snd (networkHealthCheckService_Get url lc hgreq) = (r, e)
           \<longrightarrow> r = None \<or> e = None)
     \<and> (\<forall>r e. snd (networkHealthCheckService_List url lc hlreq) = Return (r, e)
           \<longrightarrow> r = None \<or> e = None)
     \<and> (\<forall>r e. snd (snapshotService_List vc sopts) = Return (r, e) \<longrightarrow> r = None \<or> e = None)
     \<and> (\<forall>r e. snd (snapshotService_Create vc screq) = Return (r, e) \<longrightarrow> r = [] \<or> e = None)
     \<and> (\<forall>r e. snd (snapshotService_Get vc id' expand) = Return (r, e) \<longrightarrow> r = None \<or> e = None)
     \<and> (\<forall>r e. snd (snapshotService_Restore vc id' srreq) = Return (r, e)
           \<longrightarrow> r = [] \<or> e = None)"
proof -
  have pass: "r = None \<or> e = None" if "execute_NodePool ks m p b q = (r, e)" for m p b q r e
    using helper that by (metis fst_conv snd_conv)
  have nodes: "\<forall>r e. snd (nodePoolService_Nodes ks c n) = Return (r, e) \<longrightarrow> r = None \<or> e = None"
    by (auto simp: nodePoolService_Nodes_def Let_def split: prod.splits option.splits if_splits)
  have list: "\<forall>r e. snd (nodePoolService_List ks c opts) = Return (r, e) \<longrightarrow> r = None \<or> e = None"
    by (auto simp: nodePoolService_List_def Let_def split: prod.splits option.splits if_splits)
  have create: "\<forall>r e. snd (nodePoolService_Create ks c creq) = (r, e) \<longrightarrow> r = None \<or> e = None"
    using pass by (auto simp: nodePoolService_Create_def Let_def split: if_splits)
  have get: "\<forall>r e. snd (nodePoolService_Get ks c n) = (r, e) \<longrightarrow> r = None \<or> e = None"
    using pass by (auto simp: nodePoolService_Get_def Let_def split: if_splits)
  have update: "\<forall>r e. snd (nodePoolService_Update ks c n preq) = (r, e) \<longrightarrow> r = None \<or> e = None"
    using pass by (auto simp: nodePoolService_Update_def Let_def split: if_splits)
  have cred_get: "\<forall>r e. snd (credentialsService_Get rc) = (r, e) \<longrightarrow> r = None \<or> e = None"
    by (auto simp: credentialsService_Get_def Let_def split: prod.splits option.splits)
  have cred_reset:
    "\<forall>r e. snd (credentialsService_ResetPassword rc) = (r, e) \<longrightarrow> r = None \<or> e = None"
    by (auto simp: credentialsService_ResetPassword_def Let_def split: prod.splits option.splits)
  have hc_create: "\<forall>r e. snd (networkHealthCheckService_Create url lc hcreq) = (r, e)
      \<longrightarrow> r = None \<or> e = None"
    by (auto simp: networkHealthCheckService_Create_def Let_def split: prod.splits option.splits)
  have hc_get: "\<forall>r e. snd (networkHealthCheckService_Get url lc hgreq) = (r, e)
      \<longrightarrow> r = None \<or> e = None"
    by (auto simp: networkHealthCheckService_Get_def Let_def split: prod.splits option.splits)
  have hc_list: "\<forall>r e. snd (networkHealthCheckService_List url lc hlreq) = Return (r, e)
      \<longrightarrow> r = None \<or> e = None"
    by (auto simp: networkHealthCheckService_List_def Let_def split: prod.splits option.splits)
  have snap_list: "\<forall>r e. snd (snapshotService_List vc sopts) = Return (r, e) \<longrightarrow> r = None \<or> e = None"
    by (auto simp: snapshotService_List_def Let_def split: prod.splits option.splits)
  have snap_create:
    "\<forall>r e. snd (snapshotService_Create vc screq) = Return (r, e) \<longrightarrow> r = [] \<or> e = None"
    by (auto simp: snapshotService_Create_def Let_def split: prod.splits option.splits)
  have snap_get:
    "\<forall>r e. snd (snapshotService_Get vc id' expand) = Return (r, e) \<longrightarrow> r = None \<or> e = None"
    by (auto simp: snapshotService_Get_def Let_def split: prod.splits option.splits if_splits)
  have snap_restore:
    "\<forall>r e. snd (snapshotService_Restore vc id' srreq) = Return (r, e) \<longrightarrow> r = [] \<or> e = None"
    by (auto simp: snapshotService_Restore_def Let_def split: prod.splits option.splits)
  from nodes list create get update cred_get cred_reset hc_create hc_get hc_list snap_list
    snap_create snap_get snap_restore
  show ?thesis by (intro conjI)
qed

theorem error_comes_with_zero_result_witness:
  "(\<forall>m p b q. fst (execute_NodePool example_kubernetes_client m p b q) = None
               \<or> snd (execute_NodePool example_kubernetes_client m p b q) = None)
   \<and> (fst (snd (nodePoolService_Get example_kubernetes_client ''cl-1'' ''np-1'')) = None
       \<or> snd (snd (nodePoolService_Get example_kubernetes_client ''cl-1'' ''np-1'')) = None)
   \<and> (fst (snd (credentialsService_Get example_registry_client)) = None
       \<or> snd (snd (credentialsService_Get example_registry_client)) = None)
   \<and> (fst (snd (networkHealthCheckService_Get example_url_builder failing_lbaas_client
                    \<lparr>GetHC_LoadBalancerID = ''lb-1'', GetHC_HealthCheckID = ''hc-1''\<rparr>)) = None
       \<or> snd (snd (networkHealthCheckService_Get example_url_builder failing_lbaas_client
                    \<lparr>GetHC_LoadBalancerID = ''lb-1'', GetHC_HealthCheckID = ''hc-1''\<rparr>)) = None)"
proof -
  have h: "\<forall>m p b q. fst (execute_NodePool example_kubernetes_client m p b q) = None
               \<or> snd (execute_NodePool example_kubernetes_client m p b q) = None"
    by (simp add: example_kubernetes_client_def)
  from error_comes_with_zero_result [OF h, of "''cl-1''" "''np-1''" _ _ _ example_registry_client
         example_url_builder failing_lbaas_client _
         "\<lparr>GetHC_LoadBalancerID = ''lb-1'', GetHC_HealthCheckID = ''hc-1''\<rparr>"]
  have "fst (snd (nodePoolService_Get example_kubernetes_client ''cl-1'' ''np-1'')) = None
       \<or> snd (snd (nodePoolService_Get example_kubernetes_client ''cl-1'' ''np-1'')) = None"
    and "fst (snd (credentialsService_Get example_registry_client)) = None
       \<or> snd (snd (credentialsService_Get example_registry_client)) = None"
    and "fst (snd (networkHealthCheckService_Get example_url_builder failing_lbaas_client
                    \<lparr>GetHC_LoadBalancerID = ''lb-1'', GetHC_HealthCheckID = ''hc-1''\<rparr>)) = None
       \<or> snd (snd (networkHealthCheckService_Get example_url_builder failing_lbaas_client
                    \<lparr>GetHC_LoadBalancerID = ''lb-1'', GetHC_HealthCheckID = ''hc-1''\<rparr>)) = None"
    by (metis prod.collapse)+
  with h show ?thesis by (intro conjI)
qed


section \<open>Empty identifiers\<close>

text \<open>
  Claim C1, as stated, has every operation that builds a path from a cluster,
  load-balancer, node-pool, health-check or snapshot identifier reject the empty
  string with a validation error before any request is built. The snapshot service
  does not: deleting the snapshot with the empty identifier builds and executes
  \<^verbatim>\<open>DELETE /v1/snapshots/\<close>, and returns nil when the backend accepts it.
\<close>

theorem snapshot_delete_empty_id_counterexample:
  "snapshotService_Delete example_compute_client []
     = ([NewRequest ''DELETE'' ''/v1/snapshots/'' None,
         Do (Some \<lparr>Method = ''DELETE'', URL = \<lparr>Path = ''/v1/snapshots/'', RawQuery = []\<rparr>\<rparr>)],
        None)
   \<and> fst (snapshotService_Delete example_compute_client []) \<noteq> []"
  by (simp add: snapshotService_Delete_def example_compute_client_def plain_newRequest_def
      MethodDelete_def Let_def)

text \<open>
  Claim C1, amended. Every operation of the node-pool service returns a validation
  error and issues no call when an identifier it takes is empty; the error names
  the first empty field, \<^verbatim>\<open>clusterID\<close> before \<^verbatim>\<open>nodePoolID\<close>. The operations of
  the snapshot service and of the health-check service check nothing: whatever the
  identifiers are, the empty string included, their first step is to ask the
  request constructor for a request on the path built from them, and when the
  constructor gives a request and no error their second and last step is to hand
  that request to \<^verbatim>\<open>mgc_http.Do\<close> (Get of the snapshot service and List of the
  health-check service may rewrite its query string first; the verb and the path
  stay as built).
\<close>

theorem empty_identifier_handling:
  "(c = [] \<longrightarrow>
      nodePoolService_Nodes ks c n
        = ([], Return (None, Some (ValidationError ''clusterID'' CannotBeEmpty)))
    \<and> nodePoolService_List ks c opts
        = ([], Return (None, Some (ValidationError ''clusterID'' CannotBeEmpty)))
    \<and> nodePoolService_Create ks c creq
        = ([], (None, Some (ValidationError ''clusterID'' CannotBeEmpty)))
    \<and> nodePoolService_Get ks c n
        = ([], (None, Some (ValidationError ''clusterID'' CannotBeEmpty)))
    \<and> nodePoolService_Update ks c n preq
        = ([], (None, Some (ValidationError ''clusterID'' CannotBeEmpty)))
    \<and> nodePoolService_Delete ks c n
        = ([], Some (ValidationError ''clusterID'' CannotBeEmpty)))
   \<and> (c \<noteq> [] \<and> n = [] \<longrightarrow>
      nodePoolService_Nodes ks c n
        = ([], Return (None, Some (ValidationError ''nodePoolID'' CannotBeEmpty)))
    \<and> nodePoolService_Get ks c n
        = ([], (None, Some (ValidationError ''nodePoolID'' CannotBeEmpty)))
    \<and> nodePoolService_Update ks c n preq
        = ([], (None, Some (ValidationError ''nodePoolID'' CannotBeEmpty)))
    \<and> nodePoolService_Delete ks c n
        = ([], Some (ValidationError ''nodePoolID'' CannotBeEmpty)))
   \<and> (\<exists>rest. fst (snapshotService_Get vc id' expand)
        = NewRequest ''GET'' (''/v1/snapshots/'' @ id') None # rest)
   \<and> (\<exists>rest. fst (snapshotService_Delete vc id')
        = NewRequest ''DELETE'' (''/v1/snapshots/'' @ id') None # rest)
   \<and> (\<exists>rest. fst (snapshotService_Rename vc id' newName)
        = NewRequest ''PATCH'' (''/v1/snapshots/'' @ id' @ ''/rename'')
            (Some (UpdateNameBody newName)) # rest)
   \<and> (\<exists>rest. fst (snapshotService_Restore vc id' restoreReq)
        = NewRequest ''POST'' (''/v1/snapshots/'' @ id') (Some (RestoreSnapshotBody restoreReq))
          # rest)
   \<and> (\<exists>rest. fst (snapshotService_Copy vc id' copyReq)
        = NewRequest ''POST'' (''/v1/snapshots/'' @ id' @ ''/copy'') (Some (CopySnapshotBody copyReq))
          # rest)
   \<and> (\<exists>rest. fst (networkHealthCheckService_Create url lc hcreq)
        = NewRequest ''POST'' (url (Some (CreateHC_LoadBalancerID hcreq)) [''health-checks''])
            (Some (CreateHealthCheckBody hcreq)) # rest)
   \<and> (\<exists>rest. fst (networkHealthCheckService_Delete url lc hdreq)
        = NewRequest ''DELETE'' (url (Some (DeleteHC_LoadBalancerID hdreq))
                                  [''health-checks'', DeleteHC_HealthCheckID hdreq]) None # rest)
   \<and> (\<exists>rest. fst (networkHealthCheckService_Get url lc hgreq)
        = NewRequest ''GET'' (url (Some (GetHC_LoadBalancerID hgreq))
                               [''health-checks'', GetHC_HealthCheckID hgreq]) None # rest)
   \<and> (\<exists>rest. fst (networkHealthCheckService_List url lc hlreq)
        = NewRequest ''GET'' (url (Some (ListHC_LoadBalancerID hlreq)) [''health-checks'']) None
          # rest)
   \<and> (\<exists>rest. fst (networkHealthCheckService_Update url lc hureq)
        = NewRequest ''PUT'' (url (Some (UpdateHC_LoadBalancerID hureq))
                               [''health-checks'', UpdateHC_HealthCheckID hureq])
            (Some (UpdateHealthCheckBody hureq)) # rest)
   \<and> (\<forall>r. compute_newRequest vc ''GET'' (''/v1/snapshots/'' @ id') None = (Some r, None)
      \<longrightarrow> (\<exists>r'. fst (snapshotService_Get vc id' expand)
                  = [NewRequest ''GET'' (''/v1/snapshots/'' @ id') None, Do (Some r')]
             \<and> Method r' = Method r \<and> Path (URL r') = Path (URL r)))
   \<and> (\<forall>req. compute_newRequest vc ''DELETE'' (''/v1/snapshots/'' @ id') None = (req, None)
      \<longrightarrow> fst (snapshotService_Delete vc id')
            = [NewRequest ''DELETE'' (''/v1/snapshots/'' @ id') None, Do req])
   \<and> (\<forall>req. compute_newRequest vc ''PATCH'' (''/v1/snapshots/'' @ id' @ ''/rename'') (Some (UpdateNameBody newName)) = (req, None)
      \<longrightarrow> fst (snapshotService_Rename vc id' newName)
            = [NewRequest ''PATCH'' (''/v1/snapshots/'' @ id' @ ''/rename'') (Some (UpdateNameBody newName)), Do req])
   \<and> (\<forall>req. compute_newRequest vc ''POST'' (''/v1/snapshots/'' @ id') (Some (RestoreSnapshotBody restoreReq)) = (req, None)
      \<longrightarrow> fst (snapshotService_Restore vc id' restoreReq)
            = [NewRequest ''POST'' (''/v1/snapshots/'' @ id') (Some (RestoreSnapshotBody restoreReq)), Do req])
   \<and> (\<forall>req. compute_newRequest vc ''POST'' (''/v1/snapshots/'' @ id' @ ''/copy'') (Some (CopySnapshotBody copyReq)) = (req, None)
      \<longrightarrow> fst (snapshotService_Copy vc id' copyReq)
            = [NewRequest ''POST'' (''/v1/snapshots/'' @ id' @ ''/copy'') (Some (CopySnapshotBody copyReq)), Do req])
   \<and> (\<forall>req. lbaas_newRequest lc ''POST'' (url (Some (CreateHC_LoadBalancerID hcreq)) [''health-checks'']) (Some (CreateHealthCheckBody hcreq)) = (req, None)
      \<longrightarrow> fst (networkHealthCheckService_Create url lc hcreq)
            = [NewRequest ''POST'' (url (Some (CreateHC_LoadBalancerID hcreq)) [''health-checks'']) (Some (CreateHealthCheckBody hcreq)), Do req])
   \<and> (\<forall>req. lbaas_newRequest lc ''DELETE'' (url (Some (DeleteHC_LoadBalancerID hdreq))
              [''health-checks'', DeleteHC_HealthCheckID hdreq]) None = (req, None)
      \<longrightarrow> fst (networkHealthCheckService_Delete url lc hdreq)
            = [NewRequest ''DELETE'' (url (Some (DeleteHC_LoadBalancerID hdreq))
              [''health-checks'', DeleteHC_HealthCheckID hdreq]) None, Do req])
   \<and> (\<forall>req. lbaas_newRequest lc ''GET'' (url (Some (GetHC_LoadBalancerID hgreq))
              [''health-checks'', GetHC_HealthCheckID hgreq]) None = (req, None)
      \<longrightarrow> fst (networkHealthCheckService_Get url lc hgreq)
            = [NewRequest ''GET'' (url (Some (GetHC_LoadBalancerID hgreq))
              [''health-checks'', GetHC_HealthCheckID hgreq]) None, Do req])
   \<and> (\<forall>req. lbaas_newRequest lc ''PUT'' (url (Some (UpdateHC_LoadBalancerID hureq))
              [''health-checks'', UpdateHC_HealthCheckID hureq]) (Some (UpdateHealthCheckBody hureq)) = (req, None)
      \<longrightarrow> fst (networkHealthCheckService_Update url lc hureq)
            = [NewRequest ''PUT'' (url (Some (UpdateHC_LoadBalancerID hureq))
              [''health-checks'', UpdateHC_HealthCheckID hureq]) (Some (UpdateHealthCheckBody hureq)), Do req])
   \<and> (\<forall>r. lbaas_newRequest lc ''GET'' (url (Some (ListHC_LoadBalancerID hlreq)) [''health-checks''])
             None = (Some r, None)
      \<longrightarrow> (\<exists>r'. fst (networkHealthCheckService_List url lc hlreq)
                  = [NewRequest ''GET'' (url (Some (ListHC_LoadBalancerID hlreq)) [''health-checks''])
                       None,
                     Do (Some r')]
             \<and> Method r' = Method r \<and> Path (URL r') = Path (URL r)))"
proof -
  have cluster: "c = [] \<longrightarrow>
      nodePoolService_Nodes ks c n
        = ([], Return (None, Some (ValidationError ''clusterID'' CannotBeEmpty)))
    \<and> nodePoolService_List ks c opts
        = ([], Return (None, Some (ValidationError ''clusterID'' CannotBeEmpty)))
    \<and> nodePoolService_Create ks c creq
        = ([], (None, Some (ValidationError ''clusterID'' CannotBeEmpty)))
    \<and> nodePoolService_Get ks c n
        = ([], (None, Some (ValidationError ''clusterID'' CannotBeEmpty)))
    \<and> nodePoolService_Update ks c n preq
        = ([], (None, Some (ValidationError ''clusterID'' CannotBeEmpty)))
    \<and> nodePoolService_Delete ks c n
        = ([], Some (ValidationError ''clusterID'' CannotBeEmpty))"
    by (simp add: nodePoolService_Nodes_def nodePoolService_List_def nodePoolService_Create_def
        nodePoolService_Get_def nodePoolService_Update_def nodePoolService_Delete_def
        clusterIdField_def)
  have pool: "c \<noteq> [] \<and> n = [] \<longrightarrow>
      nodePoolService_Nodes ks c n
        = ([], Return (None, Some (ValidationError ''nodePoolID'' CannotBeEmpty)))
    \<and> nodePoolService_Get ks c n
        = ([], (None, Some (ValidationError ''nodePoolID'' CannotBeEmpty)))
    \<and> nodePoolService_Update ks c n preq
        = ([], (None, Some (ValidationError ''nodePoolID'' CannotBeEmpty)))
    \<and> nodePoolService_Delete ks c n
        = ([], Some (ValidationError ''nodePoolID'' CannotBeEmpty))"
    by (simp add: nodePoolService_Nodes_def nodePoolService_Get_def nodePoolService_Update_def
        nodePoolService_Delete_def nodePoolIdField_def)
  have s_get: "\<exists>rest. fst (snapshotService_Get vc id' expand)
        = NewRequest ''GET'' (''/v1/snapshots/'' @ id') None # rest"
    by (simp add: snapshotService_Get_def Let_def MethodGet_def
        split: prod.splits option.splits)
  have s_delete: "\<exists>rest. fst (snapshotService_Delete vc id')
        = NewRequest ''DELETE'' (''/v1/snapshots/'' @ id') None # rest"
    by (simp add: snapshotService_Delete_def Let_def MethodDelete_def
        split: prod.splits option.splits)
  have s_rename: "\<exists>rest. fst (snapshotService_Rename vc id' newName)
        = NewRequest ''PATCH'' (''/v1/snapshots/'' @ id' @ ''/rename'')
            (Some (UpdateNameBody newName)) # rest"
    by (simp add: snapshotService_Rename_def Let_def MethodPatch_def
        split: prod.splits option.splits)
  have s_restore: "\<exists>rest. fst (snapshotService_Restore vc id' restoreReq)
        = NewRequest ''POST'' (''/v1/snapshots/'' @ id') (Some (RestoreSnapshotBody restoreReq))
          # rest"
    by (simp add: snapshotService_Restore_def Let_def MethodPost_def
        split: prod.splits option.splits)
  have s_copy: "\<exists>rest. fst (snapshotService_Copy vc id' copyReq)
        = NewRequest ''POST'' (''/v1/snapshots/'' @ id' @ ''/copy'') (Some (CopySnapshotBody copyReq))
          # rest"
    by (simp add: snapshotService_Copy_def Let_def MethodPost_def
        split: prod.splits option.splits)
  have h_create: "\<exists>rest. fst (networkHealthCheckService_Create url lc hcreq)
        = NewRequest ''POST'' (url (Some (CreateHC_LoadBalancerID hcreq)) [''health-checks''])
            (Some (CreateHealthCheckBody hcreq)) # rest"
    by (simp add: networkHealthCheckService_Create_def Let_def MethodPost_def health_checks_def
        split: prod.splits option.splits)
  have h_delete: "\<exists>rest. fst (networkHealthCheckService_Delete url lc hdreq)
        = NewRequest ''DELETE'' (url (Some (DeleteHC_LoadBalancerID hdreq))
                                  [''health-checks'', DeleteHC_HealthCheckID hdreq]) None # rest"
    by (simp add: networkHealthCheckService_Delete_def Let_def MethodDelete_def health_checks_def
        split: prod.splits option.splits)
  have h_get: "\<exists>rest. fst (networkHealthCheckService_Get url lc hgreq)
        = NewRequest ''GET'' (url (Some (GetHC_LoadBalancerID hgreq))
                               [''health-checks'', GetHC_HealthCheckID hgreq]) None # rest"
    by (simp add: networkHealthCheckService_Get_def Let_def MethodGet_def health_checks_def
        split: prod.splits option.splits)
  have h_list: "\<exists>rest. fst (networkHealthCheckService_List url lc hlreq)
        = NewRequest ''GET'' (url (Some (ListHC_LoadBalancerID hlreq)) [''health-checks'']) None
          # rest"
    by (simp add: networkHealthCheckService_List_def Let_def MethodGet_def health_checks_def
        split: prod.splits option.splits)
  have h_update: "\<exists>rest. fst (networkHealthCheckService_Update url lc hureq)
        = NewRequest ''PUT'' (url (Some (UpdateHC_LoadBalancerID hureq))
                               [''health-checks'', UpdateHC_HealthCheckID hureq])
            (Some (UpdateHealthCheckBody hureq)) # rest"
    by (simp add: networkHealthCheckService_Update_def Let_def MethodPut_def health_checks_def
        split: prod.splits option.splits)
  have x_get: "(\<forall>r. compute_newRequest vc ''GET'' (''/v1/snapshots/'' @ id') None = (Some r, None)
      \<longrightarrow> (\<exists>r'. fst (snapshotService_Get vc id' expand)
                  = [NewRequest ''GET'' (''/v1/snapshots/'' @ id') None, Do (Some r')]
             \<and> Method r' = Method r \<and> Path (URL r') = Path (URL r)))"
    by (simp add: snapshotService_Get_def Let_def MethodGet_def)
  have x_delete: "(\<forall>req. compute_newRequest vc ''DELETE'' (''/v1/snapshots/'' @ id') None = (req, None)
      \<longrightarrow> fst (snapshotService_Delete vc id')
            = [NewRequest ''DELETE'' (''/v1/snapshots/'' @ id') None, Do req])"
    by (simp add: snapshotService_Delete_def Let_def MethodDelete_def health_checks_def)
  have x_rename: "(\<forall>req. compute_newRequest vc ''PATCH'' (''/v1/snapshots/'' @ id' @ ''/rename'') (Some (UpdateNameBody newName)) = (req, None)
      \<longrightarrow> fst (snapshotService_Rename vc id' newName)
            = [NewRequest ''PATCH'' (''/v1/snapshots/'' @ id' @ ''/rename'') (Some (UpdateNameBody newName)), Do req])"
    by (simp add: snapshotService_Rename_def Let_def MethodPatch_def health_checks_def)
  have x_restore: "(\<forall>req. compute_newRequest vc ''POST'' (''/v1/snapshots/'' @ id') (Some (RestoreSnapshotBody restoreReq)) = (req, None)
      \<longrightarrow> fst (snapshotService_Restore vc id' restoreReq)
            = [NewRequest ''POST'' (''/v1/snapshots/'' @ id') (Some (RestoreSnapshotBody restoreReq)), Do req])"
    by (simp add: snapshotService_Restore_def Let_def MethodPost_def health_checks_def)
  have x_copy: "(\<forall>req. compute_newRequest vc ''POST'' (''/v1/snapshots/'' @ id' @ ''/copy'') (Some (CopySnapshotBody copyReq)) = (req, None)
      \<longrightarrow> fst (snapshotService_Copy vc id' copyReq)
            = [NewRequest ''POST'' (''/v1/snapshots/'' @ id' @ ''/copy'') (Some (CopySnapshotBody copyReq)), Do req])"
    by (simp add: snapshotService_Copy_def Let_def MethodPost_def health_checks_def)
  have y_create: "(\<forall>req. lbaas_newRequest lc ''POST'' (url (Some (CreateHC_LoadBalancerID hcreq)) [''health-checks'']) (Some (CreateHealthCheckBody hcreq)) = (req, None)
      \<longrightarrow> fst (networkHealthCheckService_Create url lc hcreq)
            = [NewRequest ''POST'' (url (Some (CreateHC_LoadBalancerID hcreq)) [''health-checks'']) (Some (CreateHealthCheckBody hcreq)), Do req])"
    by (simp add: networkHealthCheckService_Create_def Let_def MethodPost_def health_checks_def)
  have y_delete: "(\<forall>req. lbaas_newRequest lc ''DELETE'' (url (Some (DeleteHC_LoadBalancerID hdreq))
              [''health-checks'', DeleteHC_HealthCheckID hdreq]) None = (req, None)
      \<longrightarrow> fst (networkHealthCheckService_Delete url lc hdreq)
            = [NewRequest ''DELETE'' (url (Some (DeleteHC_LoadBalancerID hdreq))
              [''health-checks'', DeleteHC_HealthCheckID hdreq]) None, Do req])"
    by (simp add: networkHealthCheckService_Delete_def Let_def MethodDelete_def health_checks_def)
  have y_get: "(\<forall>req. lbaas_newRequest lc ''GET'' (url (Some (GetHC_LoadBalancerID hgreq))
              [''health-checks'', GetHC_HealthCheckID hgreq]) None = (req, None)
      \<longrightarrow> fst (networkHealthCheckService_Get url lc hgreq)
            = [NewRequest ''GET'' (url (Some (GetHC_LoadBalancerID hgreq))
              [''health-checks'', GetHC_HealthCheckID hgreq]) None, Do req])"
    by (simp add: networkHealthCheckService_Get_def Let_def MethodGet_def health_checks_def)
  have y_update: "(\<forall>req. lbaas_newRequest lc ''PUT'' (url (Some (UpdateHC_LoadBalancerID hureq))
              [''health-checks'', UpdateHC_HealthCheckID hureq]) (Some (UpdateHealthCheckBody hureq)) = (req, None)
      \<longrightarrow> fst (networkHealthCheckService_Update url lc hureq)
            = [NewRequest ''PUT'' (url (Some (UpdateHC_LoadBalancerID hureq))
              [''health-checks'', UpdateHC_HealthCheckID hureq]) (Some (UpdateHealthCheckBody hureq)), Do req])"
    by (simp add: networkHealthCheckService_Update_def Let_def MethodPut_def health_checks_def)
  have y_list: "(\<forall>r. lbaas_newRequest lc ''GET'' (url (Some (ListHC_LoadBalancerID hlreq)) [''health-checks''])
             None = (Some r, None)
      \<longrightarrow> (\<exists>r'. fst (networkHealthCheckService_List url lc hlreq)
                  = [NewRequest ''GET'' (url (Some (ListHC_LoadBalancerID hlreq)) [''health-checks''])
                       None,
                     Do (Some r')]
             \<and> Method r' = Method r \<and> Path (URL r') = Path (URL r)))"
    by (simp add: networkHealthCheckService_List_def Let_def MethodGet_def health_checks_def)
  from cluster pool s_get s_delete s_rename s_restore s_copy h_create h_delete h_get h_list
    h_update x_get x_delete x_rename x_restore x_copy y_create y_delete y_get y_update y_list
  show ?thesis by (intro conjI)
qed

theorem empty_identifier_handling_witness:
  "nodePoolService_Create example_kubernetes_client [] example_node_pool
     = ([], (None, Some (ValidationError ''clusterID'' CannotBeEmpty)))
   \<and> nodePoolService_Nodes example_kubernetes_client [] []
     = ([], Return (None, Some (ValidationError ''clusterID'' CannotBeEmpty)))
   \<and> nodePoolService_Update example_kubernetes_client ''cl-1'' []
        \<lparr>Replicas = Some 3, AutoScale = None\<rparr>
     = ([], (None, Some (ValidationError ''nodePoolID'' CannotBeEmpty)))
   \<and> (\<exists>rest. fst (snapshotService_Get example_compute_client [] None)
        = NewRequest ''GET'' ''/v1/snapshots/'' None # rest)
   \<and> (\<exists>rest. fst (networkHealthCheckService_Get example_url_builder failing_lbaas_client
                      \<lparr>GetHC_LoadBalancerID = [], GetHC_HealthCheckID = []\<rparr>)
        = NewRequest ''GET'' ''/v1/load-balancers//health-checks/'' None # rest)
   \<and> fst (snapshotService_Copy example_compute_client [] \<lparr>DestinationRegion = []\<rparr>)
       = [NewRequest ''POST'' ''/v1/snapshots//copy''
            (Some (CopySnapshotBody \<lparr>DestinationRegion = []\<rparr>)),
          Do (Some \<lparr>Method = ''POST'', URL = \<lparr>Path = ''/v1/snapshots//copy'', RawQuery = []\<rparr>\<rparr>)]
   \<and> fst (networkHealthCheckService_Get example_url_builder failing_lbaas_client
              \<lparr>GetHC_LoadBalancerID = [], GetHC_HealthCheckID = []\<rparr>)
       = [NewRequest ''GET'' ''/v1/load-balancers//health-checks/'' None,
          Do (Some \<lparr>Method = ''GET'',
                    URL = \<lparr>Path = ''/v1/load-balancers//health-checks/'', RawQuery = []\<rparr>\<rparr>)]"
proof -
  note inst = empty_identifier_handling
    [where ks = example_kubernetes_client
       and opts = "\<lparr>Limit = None, Offset = None, Sort = None, Expand = None\<rparr>"
       and creq = example_node_pool and preq = "\<lparr>Replicas = Some 3, AutoScale = None\<rparr>"
       and vc = example_compute_client and id' = "[]" and expand = None and newName = "[]"
       and restoreReq = example_restore_request and copyReq = "\<lparr>DestinationRegion = []\<rparr>"
       and url = example_url_builder and lc = failing_lbaas_client
       and hcreq = example_create_request
       and hdreq = "\<lparr>DeleteHC_LoadBalancerID = [], DeleteHC_HealthCheckID = []\<rparr>"
       and hgreq = "\<lparr>GetHC_LoadBalancerID = [], GetHC_HealthCheckID = []\<rparr>"
       and hlreq = "\<lparr>ListHC_LoadBalancerID = [], ListHC_Offset = None, ListHC_Limit = None,
                     ListHC_Sort = None\<rparr>"
       and hureq = example_update_request]
  from inst [where c = "[]" and n = "[]"] inst [where c = "''cl-1''" and n = "[]"]
  show ?thesis
    by (simp add: example_url_builder_def example_compute_client_def failing_lbaas_client_def
        plain_newRequest_def)
qed


section \<open>Snapshots: the expand parameter\<close>

text \<open>
  Claim C2, as stated, has \<^verbatim>\<open>Get(ctx, "snap-1", ["image","machine-type"])\<close> issue
  a GET whose URL is \<^verbatim>\<open>/v1/snapshots/snap-1?expand=image,machine-type\<close>. The query
  is written by \<^verbatim>\<open>url.Values.Encode\<close>, which escapes the comma of the joined
  value: the URL of the executed request ends in \<^verbatim>\<open>expand=image%2Cmachine-type\<close>.
\<close>

theorem snapshot_get_expand_url_counterexample:
  "executed_URLs (fst (snapshotService_Get example_compute_client ''snap-1''
                         (Some [''image'', ''machine-type''])))
     = [''/v1/snapshots/snap-1?expand=image%2Cmachine-type'']
   \<and> executed_URLs (fst (snapshotService_Get example_compute_client ''snap-1''
                         (Some [''image'', ''machine-type''])))
     \<noteq> [''/v1/snapshots/snap-1?expand=image,machine-type'']"
proof -
  have enc: "Encode (Add ''expand'' ''image,machine-type'' (ParseQuery []))
               = ''expand=image%2Cmachine-type''"
    by code_simp
  have "executed_URLs (fst (snapshotService_Get example_compute_client ''snap-1''
                         (Some [''image'', ''machine-type''])))
     = [''/v1/snapshots/snap-1?expand=image%2Cmachine-type'']"
    by (simp add: snapshotService_Get_def example_compute_client_def plain_newRequest_def
        MethodGet_def Let_def len_def elems_def Query_def URL_String_def enc)
  then show ?thesis by simp
qed

text \<open>
  Claim C2, amended. For a non-empty expand list, Get and List of the snapshot
  service add one value to the query parameter \<^verbatim>\<open>expand\<close> of the request: the
  elements joined with commas. Read back from the URL of the executed request,
  \<^verbatim>\<open>expand\<close> holds what it held in the request as built, followed by that value,
  and Get leaves every other parameter as it was. For an empty or nil list Get
  executes the request untouched and List adds no \<^verbatim>\<open>expand\<close> value. In the raw
  URL the value is percent-encoded: the example call executes a GET of
  \<^verbatim>\<open>/v1/snapshots/snap-1?expand=image%2Cmachine-type\<close>, whose query parses to
  \<^verbatim>\<open>expand\<close> = \<^verbatim>\<open>image,machine-type\<close>.
\<close>

theorem snapshot_expand_parameter:
  "(\<forall>r. compute_newRequest vc ''GET'' (''/v1/snapshots/'' @ id') None = (Some r, None)
         \<and> 0 < len expand
      \<longrightarrow> (\<exists>r'. fst (snapshotService_Get vc id' expand)
                  = [NewRequest ''GET'' (''/v1/snapshots/'' @ id') None, Do (Some r')]
             \<and> Method r' = Method r \<and> Path (URL r') = Path (URL r)
             \<and> RawQuery (URL r')
                  = Encode (Add ''expand'' (Join (elems expand) '','') (Query (URL r)))
             \<and> Values_Get (Query (URL r')) ''expand''
                  = Values_Get (Query (URL r)) ''expand'' @ [Join (elems expand) '','']
             \<and> (\<forall>k. k \<noteq> ''expand''
                    \<longrightarrow> Values_Get (Query (URL r')) k = Values_Get (Query (URL r)) k)))
   \<and> (\<forall>r. compute_newRequest vc ''GET'' (''/v1/snapshots/'' @ id') None = (r, None)
         \<and> (expand = None \<or> expand = Some [])
      \<longrightarrow> fst (snapshotService_Get vc id' expand)
            = [NewRequest ''GET'' (''/v1/snapshots/'' @ id') None, Do r])
   \<and> (\<forall>r. compute_newRequest vc ''GET'' ''/v1/snapshots'' None = (Some r, None)
      \<longrightarrow> (\<exists>r'. fst (snapshotService_List vc opts)
                  = [NewRequest ''GET'' ''/v1/snapshots'' None, Do (Some r')]
             \<and> Method r' = Method r \<and> Path (URL r') = Path (URL r)
             \<and> Values_Get (Query (URL r')) ''expand''
                  = Values_Get (Query (URL r)) ''expand''
                    @ (if Expand opts = None \<or> Expand opts = Some [] then []
                       else [Join (elems (Expand opts)) '',''])))
   \<and> executed_URLs (fst (snapshotService_Get example_compute_client ''snap-1''
                           (Some [''image'', ''machine-type''])))
       = [''/v1/snapshots/snap-1?expand=image%2Cmachine-type'']
   \<and> Query \<lparr>Path = ''/v1/snapshots/snap-1'', RawQuery = ''expand=image%2Cmachine-type''\<rparr>
       = [(''expand'', [''image,machine-type''])]"
proof -
  have get_some: "\<exists>r'. fst (snapshotService_Get vc id' expand)
                  = [NewRequest ''GET'' (''/v1/snapshots/'' @ id') None, Do (Some r')]
             \<and> Method r' = Method r \<and> Path (URL r') = Path (URL r)
             \<and> RawQuery (URL r')
                  = Encode (Add ''expand'' (Join (elems expand) '','') (Query (URL r)))
             \<and> Values_Get (Query (URL r')) ''expand''
                  = Values_Get (Query (URL r)) ''expand'' @ [Join (elems expand) '','']
             \<and> (\<forall>k. k \<noteq> ''expand''
                    \<longrightarrow> Values_Get (Query (URL r')) k = Values_Get (Query (URL r)) k)"
    if built: "compute_newRequest vc ''GET'' (''/v1/snapshots/'' @ id') None = (Some r, None)"
      and some: "0 < len expand" for r
  proof -
    let ?q = "Add ''expand'' (Join (elems expand) '','') (Query (URL r))"
    let ?r' = "r\<lparr>URL := (URL r)\<lparr>RawQuery := Encode ?q\<rparr>\<rparr>"
    have d: "distinct (map fst ?q)"
      by (intro distinct_keys_Add distinct_Query)
    have trace: "fst (snapshotService_Get vc id' expand)
                  = [NewRequest ''GET'' (''/v1/snapshots/'' @ id') None, Do (Some ?r')]"
      using built some by (simp add: snapshotService_Get_def MethodGet_def Let_def)
    have parsed_back:
      "Values_Get (Query ((URL r)\<lparr>RawQuery := Encode ?q\<rparr>)) k = Values_Get ?q k" for k
      by (rule Query_Encode [OF d])
    show ?thesis
      by (rule exI [of _ ?r']) (simp add: trace parsed_back Values_Get_Add)
  qed
  have get_none: "fst (snapshotService_Get vc id' expand)
            = [NewRequest ''GET'' (''/v1/snapshots/'' @ id') None, Do r]"
    if "compute_newRequest vc ''GET'' (''/v1/snapshots/'' @ id') None = (r, None)"
      and "expand = None \<or> expand = Some []" for r
    using that by (auto simp add: snapshotService_Get_def MethodGet_def Let_def len_def)
  have list: "\<exists>r'. fst (snapshotService_List vc opts)
                  = [NewRequest ''GET'' ''/v1/snapshots'' None, Do (Some r')]
             \<and> Method r' = Method r \<and> Path (URL r') = Path (URL r)
             \<and> Values_Get (Query (URL r')) ''expand''
                  = Values_Get (Query (URL r)) ''expand''
                    @ (if Expand opts = None \<or> Expand opts = Some [] then []
                       else [Join (elems (Expand opts)) '',''])"
    if built: "compute_newRequest vc ''GET'' ''/v1/snapshots'' None = (Some r, None)" for r
  proof -
    let ?q1 = "case Limit opts of None \<Rightarrow> Query (URL r)
               | Some l \<Rightarrow> Add ''_limit'' (Itoa l) (Query (URL r))"
    let ?q2 = "case Offset opts of None \<Rightarrow> ?q1 | Some off \<Rightarrow> Add ''_offset'' (Itoa off) ?q1"
    let ?q3 = "case Sort opts of None \<Rightarrow> ?q2 | Some srt \<Rightarrow> Add ''_sort'' srt ?q2"
    let ?q = "if 0 < len (Expand opts)
              then Add ''expand'' (Join (elems (Expand opts)) '','') ?q3 else ?q3"
    let ?r' = "r\<lparr>URL := (URL r)\<lparr>RawQuery := Encode ?q\<rparr>\<rparr>"
    have d3: "distinct (map fst ?q3)"
      by (intro distinct_optional distinct_Query)
    then have d: "distinct (map fst ?q)"
      by (simp add: distinct_keys_Add)
    have trace: "fst (snapshotService_List vc opts)
                  = [NewRequest ''GET'' ''/v1/snapshots'' None, Do (Some ?r')]"
      using built by (simp add: snapshotService_List_def MethodGet_def Let_def)
    have parsed_back:
      "Values_Get (Query ((URL r)\<lparr>RawQuery := Encode ?q\<rparr>)) k = Values_Get ?q k" for k
      by (rule Query_Encode [OF d])
    have q3: "Values_Get ?q3 ''expand'' = Values_Get (Query (URL r)) ''expand''"
      by (simp only: Values_Get_optional) simp
    have empty: "0 < len (Expand opts) \<longleftrightarrow> \<not> (Expand opts = None \<or> Expand opts = Some [])"
      by (cases "Expand opts") (simp_all add: len_def)
    have "Values_Get ?q ''expand''
        = Values_Get (Query (URL r)) ''expand''
          @ (if Expand opts = None \<or> Expand opts = Some [] then []
             else [Join (elems (Expand opts)) '',''])"
      using q3 empty by (simp add: Values_Get_Add)
    then show ?thesis
      by (intro exI [of _ ?r']) (simp add: trace parsed_back)
  qed
  have enc: "Encode (Add ''expand'' ''image,machine-type'' (ParseQuery []))
               = ''expand=image%2Cmachine-type''"
    by code_simp
  have example: "executed_URLs (fst (snapshotService_Get example_compute_client ''snap-1''
                         (Some [''image'', ''machine-type''])))
     = [''/v1/snapshots/snap-1?expand=image%2Cmachine-type'']"
    by (simp add: snapshotService_Get_def example_compute_client_def plain_newRequest_def
        MethodGet_def Let_def len_def elems_def Query_def URL_String_def enc)
  have parsed: "ParseQuery ''expand=image%2Cmachine-type'' = [(''expand'', [''image,machine-type''])]"
    by code_simp
  from get_some get_none list example parsed
  show ?thesis by (simp add: Query_def)
qed

theorem snapshot_expand_parameter_witness:
  "fst (snapshotService_Get example_compute_client ''snap-1'' (Some []))
     = [NewRequest ''GET'' ''/v1/snapshots/snap-1'' None,
        Do (Some \<lparr>Method = ''GET'', URL = \<lparr>Path = ''/v1/snapshots/snap-1'', RawQuery = []\<rparr>\<rparr>)]
   \<and> (\<exists>r'. fst (snapshotService_Get example_compute_client ''snap-1''
                   (Some [''image'', ''machine-type'']))
               = [NewRequest ''GET'' ''/v1/snapshots/snap-1'' None, Do (Some r')]
          \<and> Values_Get (Query (URL r')) ''expand'' = [''image,machine-type''])
   \<and> (\<exists>r'. fst (snapshotService_List example_compute_client
                   \<lparr>Limit = None, Offset = None, Sort = None, Expand = Some [''image'']\<rparr>)
               = [NewRequest ''GET'' ''/v1/snapshots'' None, Do (Some r')]
          \<and> Values_Get (Query (URL r')) ''expand'' = [''image''])"
proof -
  let ?r1 = "\<lparr>Method = ''GET'', URL = \<lparr>Path = ''/v1/snapshots/snap-1'', RawQuery = []\<rparr>\<rparr>"
  let ?r2 = "\<lparr>Method = ''GET'', URL = \<lparr>Path = ''/v1/snapshots'', RawQuery = []\<rparr>\<rparr>"
  have b1: "compute_newRequest example_compute_client ''GET'' (''/v1/snapshots/'' @ ''snap-1'') None
             = (Some ?r1, None)"
    by (simp add: example_compute_client_def plain_newRequest_def)
  have b2: "compute_newRequest example_compute_client ''GET'' ''/v1/snapshots'' None = (Some ?r2, None)"
    by (simp add: example_compute_client_def plain_newRequest_def)
  have empty: "Values_Get (Query \<lparr>Path = p, RawQuery = []\<rparr>) k = []" for p k
    by (simp add: Query_def ParseQuery_def parse_pair_def Values_Get_def)
  note inst = snapshot_expand_parameter [where vc = example_compute_client and id' = "''snap-1''"]
  from inst [where expand = "Some []"] b1
  have w1: "fst (snapshotService_Get example_compute_client ''snap-1'' (Some []))
     = [NewRequest ''GET'' ''/v1/snapshots/snap-1'' None, Do (Some ?r1)]"
    by simp
  from inst [where expand = "Some [''image'', ''machine-type'']"] b1
  have w2: "\<exists>r'. fst (snapshotService_Get example_compute_client ''snap-1''
                   (Some [''image'', ''machine-type'']))
               = [NewRequest ''GET'' ''/v1/snapshots/snap-1'' None, Do (Some r')]
          \<and> Values_Get (Query (URL r')) ''expand'' = [''image,machine-type'']"
    by (simp add: len_def elems_def empty) blast
  from inst [where opts = "\<lparr>Limit = None, Offset = None, Sort = None, Expand = Some [''image'']\<rparr>"] b2
  have w3: "\<exists>r'. fst (snapshotService_List example_compute_client
                   \<lparr>Limit = None, Offset = None, Sort = None, Expand = Some [''image'']\<rparr>)
               = [NewRequest ''GET'' ''/v1/snapshots'' None, Do (Some r')]
          \<and> Values_Get (Query (URL r')) ''expand'' = [''image'']"
    by (simp add: elems_def empty) blast
  from w1 w2 w3 show ?thesis by (intro conjI)
qed


section \<open>List operations: optional query parameters\<close>

text \<open>
  Claim C3, as stated, has every List operation add the documented parameter for
  each of Limit, Offset, Sort and Expand that is set. List of the node-pool service
  takes a \<^verbatim>\<open>ListOptions\<close> with an \<^verbatim>\<open>Expand\<close> field and never reads it: with
  \<^verbatim>\<open>Expand\<close> set to \<^verbatim>\<open>["image"]\<close> the query it hands over is empty.
\<close>

theorem nodePool_list_expand_counterexample:
  "fst (nodePoolService_List example_kubernetes_client ''cl-1''
          \<lparr>Limit = None, Offset = None, Sort = None, Expand = Some [''image'']\<rparr>)
     = [ExecuteSimpleRequestWithRespBody ''GET'' ''/v1alpha0/clusters/cl-1/node-pools'' None
          (Some [])]
   \<and> Encode [] = []"
  by (simp add: nodePoolService_List_def MethodGet_def Let_def Encode_def)

text \<open>
  Claim C3, amended. List of the node-pool service hands over a query that holds
  \<^verbatim>\<open>_limit\<close>, \<^verbatim>\<open>_offset\<close> and \<^verbatim>\<open>_sort\<close>, each exactly when the option is not
  nil, the integers in decimal, and nothing else: \<^verbatim>\<open>Expand\<close> is ignored. List of
  the snapshot service adds to the query of the request, as read back from the URL
  it executes, \<^verbatim>\<open>_limit\<close>, \<^verbatim>\<open>_offset\<close>, \<^verbatim>\<open>_sort\<close> and \<^verbatim>\<open>expand\<close> (the list
  joined with commas), each exactly when the option is set, and nothing else. List
  of the health-check service, through the query helper as the spec describes it,
  adds \<^verbatim>\<open>_offset\<close>, \<^verbatim>\<open>_limit\<close> and \<^verbatim>\<open>_sort\<close> in the same way. With no option
  set nothing is added. \<^verbatim>\<open>strconv.Itoa\<close> writes a non-negative integer as the
  decimal digits of its value and a negative one as a minus sign before them.
\<close>

theorem list_query_parameters:
  "(c \<noteq> [] \<longrightarrow>
      (\<exists>query. fst (nodePoolService_List ks c opts)
          = [ExecuteSimpleRequestWithRespBody ''GET'' (''/v1alpha0/clusters/'' @ c @ ''/node-pools'')
               None (Some query)]
        \<and> (\<forall>k. Values_Get query k
               = (if k = ''_limit'' then (case Limit opts of None \<Rightarrow> [] | Some l \<Rightarrow> [Itoa l])
                  else if k = ''_offset'' then (case Offset opts of None \<Rightarrow> [] | Some off \<Rightarrow> [Itoa off])
                  else if k = ''_sort'' then (case Sort opts of None \<Rightarrow> [] | Some srt \<Rightarrow> [srt])
                  else []))
        \<and> (\<forall>k. Values_Get (ParseQuery (Encode query)) k = Values_Get query k)))
   \<and> (\<forall>r. compute_newRequest vc ''GET'' ''/v1/snapshots'' None = (Some r, None)
      \<longrightarrow> (\<exists>r'. fst (snapshotService_List vc opts)
                  = [NewRequest ''GET'' ''/v1/snapshots'' None, Do (Some r')]
             \<and> Method r' = Method r \<and> Path (URL r') = Path (URL r)
             \<and> (\<forall>k. Values_Get (Query (URL r')) k
                  = Values_Get (Query (URL r)) k
                    @ (if k = ''_limit'' then (case Limit opts of None \<Rightarrow> [] | Some l \<Rightarrow> [Itoa l])
                       else if k = ''_offset''
                       then (case Offset opts of None \<Rightarrow> [] | Some off \<Rightarrow> [Itoa off])
                       else if k = ''_sort'' then (case Sort opts of None \<Rightarrow> [] | Some srt \<Rightarrow> [srt])
                       else if k = ''expand''
                       then (if Expand opts = None \<or> Expand opts = Some [] then []
                             else [Join (elems (Expand opts)) '',''])
                       else []))))
   \<and> (\<forall>r. lbaas_newRequest lc ''GET'' (url (Some (ListHC_LoadBalancerID hlreq)) [''health-checks''])
             None = (Some r, None)
      \<longrightarrow> (\<exists>r'. fst (networkHealthCheckService_List url lc hlreq)
                  = [NewRequest ''GET'' (url (Some (ListHC_LoadBalancerID hlreq)) [''health-checks''])
                       None,
                     Do (Some r')]
             \<and> Method r' = Method r \<and> Path (URL r') = Path (URL r)
             \<and> (\<forall>k. Values_Get (Query (URL r')) k
                  = Values_Get (Query (URL r)) k
                    @ (if k = ''_offset''
                       then (case ListHC_Offset hlreq of None \<Rightarrow> [] | Some off \<Rightarrow> [Itoa off])
                       else if k = ''_limit''
                       then (case ListHC_Limit hlreq of None \<Rightarrow> [] | Some l \<Rightarrow> [Itoa l])
                       else if k = ''_sort''
                       then (case ListHC_Sort hlreq of None \<Rightarrow> [] | Some srt \<Rightarrow> [srt])
                       else []))))
   \<and> (0 \<le> i \<longrightarrow> decimal_value (Itoa i) = nat i)
   \<and> (i < 0 \<longrightarrow> Itoa i = CHR ''-'' # Itoa (- i))"
proof -
  have pools: "\<exists>query. fst (nodePoolService_List ks c opts)
          = [ExecuteSimpleRequestWithRespBody ''GET'' (''/v1alpha0/clusters/'' @ c @ ''/node-pools'')
               None (Some query)]
        \<and> (\<forall>k. Values_Get query k
               = (if k = ''_limit'' then (case Limit opts of None \<Rightarrow> [] | Some l \<Rightarrow> [Itoa l])
                  else if k = ''_offset'' then (case Offset opts of None \<Rightarrow> [] | Some off \<Rightarrow> [Itoa off])
                  else if k = ''_sort'' then (case Sort opts of None \<Rightarrow> [] | Some srt \<Rightarrow> [srt])
                  else []))
        \<and> (\<forall>k. Values_Get (ParseQuery (Encode query)) k = Values_Get query k)"
    if "c \<noteq> []"
  proof -
    let ?q1 = "case Limit opts of None \<Rightarrow> [] | Some l \<Rightarrow> Add ''_limit'' (Itoa l) []"
    let ?q2 = "case Offset opts of None \<Rightarrow> ?q1 | Some off \<Rightarrow> Add ''_offset'' (Itoa off) ?q1"
    let ?q = "case Sort opts of None \<Rightarrow> ?q2 | Some srt \<Rightarrow> Add ''_sort'' srt ?q2"
    have d: "distinct (map fst ?q)"
      by (intro distinct_optional) simp
    have trace: "fst (nodePoolService_List ks c opts)
          = [ExecuteSimpleRequestWithRespBody ''GET'' (''/v1alpha0/clusters/'' @ c @ ''/node-pools'')
               None (Some ?q)]"
      using that by (simp add: nodePoolService_List_def MethodGet_def Let_def)
    have vals: "Values_Get ?q k
               = (if k = ''_limit'' then (case Limit opts of None \<Rightarrow> [] | Some l \<Rightarrow> [Itoa l])
                  else if k = ''_offset'' then (case Offset opts of None \<Rightarrow> [] | Some off \<Rightarrow> [Itoa off])
                  else if k = ''_sort'' then (case Sort opts of None \<Rightarrow> [] | Some srt \<Rightarrow> [srt])
                  else [])" for k
      by (simp only: Values_Get_optional Values_Get_Nil) simp
    have parsed: "Values_Get (ParseQuery (Encode ?q)) k = Values_Get ?q k" for k
      by (rule Query_of_Encode [OF d])
    from trace vals parsed show ?thesis
      by (intro exI [of _ ?q] conjI allI)
  qed
  have snapshots: "\<exists>r'. fst (snapshotService_List vc opts)
                  = [NewRequest ''GET'' ''/v1/snapshots'' None, Do (Some r')]
             \<and> Method r' = Method r \<and> Path (URL r') = Path (URL r)
             \<and> (\<forall>k. Values_Get (Query (URL r')) k
                  = Values_Get (Query (URL r)) k
                    @ (if k = ''_limit'' then (case Limit opts of None \<Rightarrow> [] | Some l \<Rightarrow> [Itoa l])
                       else if k = ''_offset''
                       then (case Offset opts of None \<Rightarrow> [] | Some off \<Rightarrow> [Itoa off])
                       else if k = ''_sort'' then (case Sort opts of None \<Rightarrow> [] | Some srt \<Rightarrow> [srt])
                       else if k = ''expand''
                       then (if Expand opts = None \<or> Expand opts = Some [] then []
                             else [Join (elems (Expand opts)) '',''])
                       else []))"
    if built: "compute_newRequest vc ''GET'' ''/v1/snapshots'' None = (Some r, None)" for r
  proof -
    let ?q1 = "case Limit opts of None \<Rightarrow> Query (URL r)
               | Some l \<Rightarrow> Add ''_limit'' (Itoa l) (Query (URL r))"
    let ?q2 = "case Offset opts of None \<Rightarrow> ?q1 | Some off \<Rightarrow> Add ''_offset'' (Itoa off) ?q1"
    let ?q3 = "case Sort opts of None \<Rightarrow> ?q2 | Some srt \<Rightarrow> Add ''_sort'' srt ?q2"
    let ?q = "if 0 < len (Expand opts)
              then Add ''expand'' (Join (elems (Expand opts)) '','') ?q3 else ?q3"
    let ?r' = "r\<lparr>URL := (URL r)\<lparr>RawQuery := Encode ?q\<rparr>\<rparr>"
    have d3: "distinct (map fst ?q3)"
      by (intro distinct_optional distinct_Query)
    then have d: "distinct (map fst ?q)"
      by (simp add: distinct_keys_Add)
    have trace: "fst (snapshotService_List vc opts)
                  = [NewRequest ''GET'' ''/v1/snapshots'' None, Do (Some ?r')]"
      using built by (simp add: snapshotService_List_def MethodGet_def Let_def)
    have parsed_back:
      "Values_Get (Query ((URL r)\<lparr>RawQuery := Encode ?q\<rparr>)) k = Values_Get ?q k" for k
      by (rule Query_Encode [OF d])
    have q3: "Values_Get ?q3 k
        = Values_Get (Query (URL r)) k
          @ (if k = ''_limit'' then (case Limit opts of None \<Rightarrow> [] | Some l \<Rightarrow> [Itoa l])
             else if k = ''_offset'' then (case Offset opts of None \<Rightarrow> [] | Some off \<Rightarrow> [Itoa off])
             else if k = ''_sort'' then (case Sort opts of None \<Rightarrow> [] | Some srt \<Rightarrow> [srt])
             else [])" for k
      by (simp only: Values_Get_optional) simp
    have empty: "0 < len (Expand opts) \<longleftrightarrow> \<not> (Expand opts = None \<or> Expand opts = Some [])"
      by (cases "Expand opts") (simp_all add: len_def)
    have vals: "Values_Get ?q k
        = Values_Get (Query (URL r)) k
          @ (if k = ''_limit'' then (case Limit opts of None \<Rightarrow> [] | Some l \<Rightarrow> [Itoa l])
             else if k = ''_offset'' then (case Offset opts of None \<Rightarrow> [] | Some off \<Rightarrow> [Itoa off])
             else if k = ''_sort'' then (case Sort opts of None \<Rightarrow> [] | Some srt \<Rightarrow> [srt])
             else if k = ''expand''
             then (if Expand opts = None \<or> Expand opts = Some [] then []
                   else [Join (elems (Expand opts)) '',''])
             else [])" for k
    proof (cases "0 < len (Expand opts)")
      case True
      then have "Values_Get ?q k
          = (if k = ''expand'' then Values_Get ?q3 ''expand'' @ [Join (elems (Expand opts)) '','']
             else Values_Get ?q3 k)"
        by (simp only: if_True Values_Get_Add)
      with True empty show ?thesis by (simp only: q3) simp
    next
      case False
      then have "Values_Get ?q k = Values_Get ?q3 k" by (simp only: if_False)
      with False empty show ?thesis by (simp only: q3) simp
    qed
    show ?thesis
      by (intro exI [of _ ?r']) (simp add: trace parsed_back vals del: len_def)
  qed
  have checks: "\<exists>r'. fst (networkHealthCheckService_List url lc hlreq)
                  = [NewRequest ''GET'' (url (Some (ListHC_LoadBalancerID hlreq)) [''health-checks''])
                       None,
                     Do (Some r')]
             \<and> Method r' = Method r \<and> Path (URL r') = Path (URL r)
             \<and> (\<forall>k. Values_Get (Query (URL r')) k
                  = Values_Get (Query (URL r)) k
                    @ (if k = ''_offset''
                       then (case ListHC_Offset hlreq of None \<Rightarrow> [] | Some off \<Rightarrow> [Itoa off])
                       else if k = ''_limit''
                       then (case ListHC_Limit hlreq of None \<Rightarrow> [] | Some l \<Rightarrow> [Itoa l])
                       else if k = ''_sort''
                       then (case ListHC_Sort hlreq of None \<Rightarrow> [] | Some srt \<Rightarrow> [srt])
                       else []))"
    if built: "lbaas_newRequest lc ''GET'' (url (Some (ListHC_LoadBalancerID hlreq)) [''health-checks''])
             None = (Some r, None)" for r
  proof -
    let ?q1 = "case ListHC_Offset hlreq of None \<Rightarrow> Query (URL r)
               | Some off \<Rightarrow> Add ''_offset'' (Itoa off) (Query (URL r))"
    let ?q2 = "case ListHC_Limit hlreq of None \<Rightarrow> ?q1 | Some l \<Rightarrow> Add ''_limit'' (Itoa l) ?q1"
    let ?q = "case ListHC_Sort hlreq of None \<Rightarrow> ?q2 | Some srt \<Rightarrow> Add ''_sort'' srt ?q2"
    let ?r' = "r\<lparr>URL := (URL r)\<lparr>RawQuery := Encode ?q\<rparr>\<rparr>"
    have d: "distinct (map fst ?q)"
      by (intro distinct_optional distinct_Query)
    have trace: "fst (networkHealthCheckService_List url lc hlreq)
                  = [NewRequest ''GET'' (url (Some (ListHC_LoadBalancerID hlreq)) [''health-checks''])
                       None,
                     Do (Some ?r')]"
      using built
      by (simp add: networkHealthCheckService_List_def MethodGet_def health_checks_def Let_def
          NewQueryParams_def AddReflect_def QueryParams_Add_def QueryParams_Encode_def)
    have parsed_back:
      "Values_Get (Query ((URL r)\<lparr>RawQuery := Encode ?q\<rparr>)) k = Values_Get ?q k" for k
      by (rule Query_Encode [OF d])
    have vals: "Values_Get ?q k
        = Values_Get (Query (URL r)) k
          @ (if k = ''_offset''
             then (case ListHC_Offset hlreq of None \<Rightarrow> [] | Some off \<Rightarrow> [Itoa off])
             else if k = ''_limit''
             then (case ListHC_Limit hlreq of None \<Rightarrow> [] | Some l \<Rightarrow> [Itoa l])
             else if k = ''_sort''
             then (case ListHC_Sort hlreq of None \<Rightarrow> [] | Some srt \<Rightarrow> [srt])
             else [])" for k
      by (simp only: Values_Get_optional) simp
    show ?thesis
      by (intro exI [of _ ?r']) (simp add: trace parsed_back vals)
  qed
  have decimal: "0 \<le> i \<longrightarrow> decimal_value (Itoa i) = nat i"
    by (simp add: Itoa_def decimal_value_nat_digits)
  have minus: "i < 0 \<longrightarrow> Itoa i = CHR ''-'' # Itoa (- i)"
    by (simp add: Itoa_def)
  from pools snapshots checks decimal minus
  show ?thesis by blast
qed

theorem list_query_parameters_witness:
  "(\<exists>query. fst (nodePoolService_List example_kubernetes_client ''cl-1''
                    \<lparr>Limit = Some 10, Offset = Some 20, Sort = None, Expand = Some [''image'']\<rparr>)
          = [ExecuteSimpleRequestWithRespBody ''GET'' ''/v1alpha0/clusters/cl-1/node-pools''
               None (Some query)]
        \<and> Values_Get query ''_limit'' = [''10''] \<and> Values_Get query ''_offset'' = [''20'']
        \<and> Values_Get query ''_sort'' = [] \<and> Values_Get query ''expand'' = [])
   \<and> (\<exists>r'. fst (snapshotService_List example_compute_client
                   \<lparr>Limit = None, Offset = None, Sort = None, Expand = None\<rparr>)
               = [NewRequest ''GET'' ''/v1/snapshots'' None, Do (Some r')]
          \<and> Values_Get (Query (URL r')) ''_limit'' = []
          \<and> Values_Get (Query (URL r')) ''_offset'' = []
          \<and> Values_Get (Query (URL r')) ''_sort'' = []
          \<and> Values_Get (Query (URL r')) ''expand'' = [])
   \<and> (\<exists>r'. fst (networkHealthCheckService_List example_url_builder failing_lbaas_client
                   \<lparr>ListHC_LoadBalancerID = ''lb-1'', ListHC_Offset = None,
                    ListHC_Limit = Some 10, ListHC_Sort = Some ''name''\<rparr>)
               = [NewRequest ''GET'' ''/v1/load-balancers/lb-1/health-checks'' None, Do (Some r')]
          \<and> Values_Get (Query (URL r')) ''_offset'' = []
          \<and> Values_Get (Query (URL r')) ''_limit'' = [''10'']
          \<and> Values_Get (Query (URL r')) ''_sort'' = [''name''])
   \<and> decimal_value (Itoa 10) = 10"
proof -
  let ?r1 = "\<lparr>Method = ''GET'', URL = \<lparr>Path = ''/v1/snapshots'', RawQuery = []\<rparr>\<rparr>"
  let ?r2 = "\<lparr>Method = ''GET'',
             URL = \<lparr>Path = ''/v1/load-balancers/lb-1/health-checks'', RawQuery = []\<rparr>\<rparr>"
  let ?hl = "\<lparr>ListHC_LoadBalancerID = ''lb-1'', ListHC_Offset = None,
              ListHC_Limit = Some 10, ListHC_Sort = Some ''name''\<rparr>"
  have ten: "Itoa 10 = ''10''" by code_simp
  have twenty: "Itoa 20 = ''20''" by code_simp
  have path: "example_url_builder (Some ''lb-1'') [''health-checks'']
                = ''/v1/load-balancers/lb-1/health-checks''"
    by (simp add: example_url_builder_def)
  have b1: "compute_newRequest example_compute_client ''GET'' ''/v1/snapshots'' None = (Some ?r1, None)"
    by (simp add: example_compute_client_def plain_newRequest_def)
  have b2: "lbaas_newRequest failing_lbaas_client ''GET''
              (example_url_builder (Some (ListHC_LoadBalancerID ?hl)) [''health-checks'']) None
            = (Some ?r2, None)"
    by (simp add: failing_lbaas_client_def plain_newRequest_def path)
  have empty: "Values_Get (Query \<lparr>Path = p, RawQuery = []\<rparr>) k = []" for p k
    by (simp add: Query_def ParseQuery_def parse_pair_def Values_Get_def)
  note inst = list_query_parameters
    [where c = "''cl-1''" and ks = example_kubernetes_client and vc = example_compute_client
       and url = example_url_builder and lc = failing_lbaas_client and hlreq = ?hl and i = 10]
  note pools = inst [where opts = "\<lparr>Limit = Some 10, Offset = Some 20, Sort = None,
                                      Expand = Some [''image'']\<rparr>", THEN conjunct1]
  note rest = inst [where opts = "\<lparr>Limit = None, Offset = None, Sort = None, Expand = None\<rparr>",
                    THEN conjunct2]
  from pools obtain query where
    t1: "fst (nodePoolService_List example_kubernetes_client ''cl-1''
                    \<lparr>Limit = Some 10, Offset = Some 20, Sort = None, Expand = Some [''image'']\<rparr>)
          = [ExecuteSimpleRequestWithRespBody ''GET'' ''/v1alpha0/clusters/cl-1/node-pools''
               None (Some query)]"
    and v1: "\<And>k. Values_Get query k
               = (if k = ''_limit'' then [''10''] else if k = ''_offset'' then [''20'']
                  else if k = ''_sort'' then [] else [])"
    by (auto simp: ten twenty)
  have w1: "\<exists>query. fst (nodePoolService_List example_kubernetes_client ''cl-1''
                    \<lparr>Limit = Some 10, Offset = Some 20, Sort = None, Expand = Some [''image'']\<rparr>)
          = [ExecuteSimpleRequestWithRespBody ''GET'' ''/v1alpha0/clusters/cl-1/node-pools''
               None (Some query)]
        \<and> Values_Get query ''_limit'' = [''10''] \<and> Values_Get query ''_offset'' = [''20'']
        \<and> Values_Get query ''_sort'' = [] \<and> Values_Get query ''expand'' = []"
    by (rule exI [of _ query]) (simp add: t1 v1)
  from rest [THEN conjunct1, rule_format, OF b1] obtain r' where
    t2: "fst (snapshotService_List example_compute_client
                   \<lparr>Limit = None, Offset = None, Sort = None, Expand = None\<rparr>)
               = [NewRequest ''GET'' ''/v1/snapshots'' None, Do (Some r')]"
    and v2: "\<And>k. Values_Get (Query (URL r')) k = []"
    by (auto simp: empty)
  have w2: "\<exists>r'. fst (snapshotService_List example_compute_client
                   \<lparr>Limit = None, Offset = None, Sort = None, Expand = None\<rparr>)
               = [NewRequest ''GET'' ''/v1/snapshots'' None, Do (Some r')]
          \<and> Values_Get (Query (URL r')) ''_limit'' = []
          \<and> Values_Get (Query (URL r')) ''_offset'' = []
          \<and> Values_Get (Query (URL r')) ''_sort'' = []
          \<and> Values_Get (Query (URL r')) ''expand'' = []"
    by (rule exI [of _ r']) (simp add: t2 v2)
  from rest [THEN conjunct2, THEN conjunct1, rule_format, OF b2] obtain r'' where
    t3: "fst (networkHealthCheckService_List example_url_builder failing_lbaas_client ?hl)
               = [NewRequest ''GET'' ''/v1/load-balancers/lb-1/health-checks'' None, Do (Some r'')]"
    and v3: "\<And>k. Values_Get (Query (URL r'')) k
               = (if k = ''_offset'' then [] else if k = ''_limit'' then [''10'']
                  else if k = ''_sort'' then [''name''] else [])"
    by (auto simp: empty ten path)
  have w3: "\<exists>r'. fst (networkHealthCheckService_List example_url_builder failing_lbaas_client ?hl)
               = [NewRequest ''GET'' ''/v1/load-balancers/lb-1/health-checks'' None, Do (Some r')]
          \<and> Values_Get (Query (URL r')) ''_offset'' = []
          \<and> Values_Get (Query (URL r')) ''_limit'' = [''10'']
          \<and> Values_Get (Query (URL r')) ''_sort'' = [''name'']"
    by (rule exI [of _ r'']) (simp add: t3 v3)
  from rest [THEN conjunct2, THEN conjunct2, THEN conjunct1]
  have w4: "decimal_value (Itoa 10) = 10" by simp
  from w1 w2 w3 w4 show ?thesis by (intro conjI)
qed


end
